theory Spec2Isabelle
  imports Main "HOL-Library.Sublist" "HOL-Library.Char_ord" "HOL-Library.List_Lexorder"
    "HOL-Library.Product_Lexorder"
begin

section \<open>JavaScript values\<close>

text \<open>
  The client of \<^verbatim>\<open>packages/openapi-fetch/src/index.js\<close> is dynamically typed, so the
  embedding works on a datatype of JavaScript values. Strings are byte strings holding
  the UTF-8 encoding of the JavaScript string. Numbers are the safe integers (magnitude
  at most \<open>2\<^sup>5\<^sup>3 - 1\<close>); fractions, \<^verbatim>\<open>NaN\<close>, the infinities, \<^verbatim>\<open>-0\<close> and the larger
  numbers, which JavaScript prints with an exponent, are not represented, and there are
  no symbols, big integers or functions among the values. An object is a plain object
  (its prototype is \<^verbatim>\<open>Object.prototype\<close>), given as the list of its own enumerable
  properties in the order of their creation; the property names of an object are
  distinct.
\<close>

datatype jsval =
    JUndefined
  | JNull
  | JBool bool
  | JNum int
  | JStr string
  | JArr "jsval list"
  | JObj "(string \<times> jsval) list"

text \<open>
  The last error is not one of the program: it marks an input on which the program's
  result depends on a built-in function of the engine (a member of
  \<^verbatim>\<open>Object.prototype\<close> found where the program looks a name up in an object), about
  which the embedding says nothing.
\<close>

datatype error =
    UnsupportedValueError  \<comment> \<open>the \<^verbatim>\<open>Error\<close> thrown by \<^verbatim>\<open>serializePrimitiveParam\<close>\<close>
  | TypeError              \<comment> \<open>thrown by the platform\<close>
  | SyntaxError            \<comment> \<open>thrown by \<^verbatim>\<open>JSON.parse\<close> inside \<^verbatim>\<open>Response.json()\<close>\<close>
  | TransportFailure string \<comment> \<open>rejection of the \<^verbatim>\<open>fetch\<close> call\<close>
  | OutsideModel

fun typeof :: "jsval \<Rightarrow> string" where
  "typeof JUndefined = ''undefined''"
| "typeof JNull = ''object''"
| "typeof (JBool b) = ''boolean''"
| "typeof (JNum n) = ''number''"
| "typeof (JStr s) = ''string''"
| "typeof (JArr xs) = ''object''"
| "typeof (JObj kvs) = ''object''"

fun truthy :: "jsval \<Rightarrow> bool" where
  "truthy JUndefined = False"
| "truthy JNull = False"
| "truthy (JBool b) = b"
| "truthy (JNum n) = (n \<noteq> 0)"
| "truthy (JStr s) = (s \<noteq> [])"
| "truthy (JArr xs) = True"
| "truthy (JObj kvs) = True"

fun isArray :: "jsval \<Rightarrow> bool" where
  "isArray (JArr xs) = True"
| "isArray v = False"

text \<open>The decimal text of an array index, and \<^verbatim>\<open>Number.prototype.toString\<close> on integers.\<close>

definition decimal_digit :: "nat \<Rightarrow> char" where
  "decimal_digit d = ''0123456789'' ! d"

fun decimal :: "nat \<Rightarrow> string" where
  "decimal n =
     (if 10 \<le> n then decimal (n div 10) @ [decimal_digit (n mod 10)] else [decimal_digit n])"

definition Number_toString :: "int \<Rightarrow> string" where
  "Number_toString i = (if 0 \<le> i then decimal (nat i) else CHR ''-'' # decimal (nat (- i)))"

text \<open>\<^verbatim>\<open>xs.join(sep)\<close> on strings: the separator stands between consecutive elements only.\<close>

fun join_strings :: "string \<Rightarrow> string list \<Rightarrow> string" where
  "join_strings sep [] = []"
| "join_strings sep [x] = x"
| "join_strings sep (x # y # zs) = x @ sep @ join_strings sep (y # zs)"

text \<open>
  The abstract operation ToString. An array prints as its elements joined by a comma,
  with \<^verbatim>\<open>undefined\<close> and \<^verbatim>\<open>null\<close> elements printed as the empty string; a plain
  object prints as \<^verbatim>\<open>[object Object]\<close>.
\<close>

fun ToString :: "jsval \<Rightarrow> string" where
  "ToString JUndefined = ''undefined''"
| "ToString JNull = ''null''"
| "ToString (JBool b) = (if b then ''true'' else ''false'')"
| "ToString (JNum n) = Number_toString n"
| "ToString (JStr s) = s"
| "ToString (JArr xs) =
     join_strings '','' (map (\<lambda>v. if v = JUndefined \<or> v = JNull then [] else ToString v) xs)"
| "ToString (JObj kvs) = ''[object Object]''"

text \<open>\<^verbatim>\<open>Array.prototype.join\<close>: \<^verbatim>\<open>undefined\<close> and \<^verbatim>\<open>null\<close> elements give the empty string.\<close>

definition Array_join :: "jsval list \<Rightarrow> string \<Rightarrow> string" where
  "Array_join xs sep =
     join_strings sep (map (\<lambda>v. if v = JUndefined \<or> v = JNull then [] else ToString v) xs)"

subsection \<open>Property enumeration\<close>

text \<open>
  A property name is an array index when it is the canonical decimal text of a number
  below \<open>2\<^sup>3\<^sup>2 - 1\<close>, that is, of a number up to 4294967294. Among such names the
  numeric order is the order by length and then by text.
\<close>

definition is_digit :: "char \<Rightarrow> bool" where
  "is_digit c = List.member ''0123456789'' c"

definition array_index :: "string \<Rightarrow> bool" where
  "array_index k =
     (k \<noteq> [] \<and> list_all is_digit k \<and> (k = ''0'' \<or> hd k \<noteq> CHR ''0'') \<and>
      (length k < 10 \<or> (length k = 10 \<and> k \<le> ''4294967294'')))"

definition index_order :: "string \<times> jsval \<Rightarrow> nat \<times> string" where
  "index_order p = (length (fst p), fst p)"

text \<open>
  \<^verbatim>\<open>for (const k in value)\<close> together with the read \<^verbatim>\<open>value[k]\<close>, and
  \<^verbatim>\<open>Object.entries(value)\<close>: the own enumerable properties of a plain object, those
  named by an array index first, in ascending order of the index, and then the others
  in the order of their creation; the indices of an array. (No member of
  \<^verbatim>\<open>Object.prototype\<close> is enumerable. The index properties of a string are not
  represented: the program enumerates a string only in an object spread, of which it
  never reads an index property.)
\<close>

fun for_in :: "jsval \<Rightarrow> (string \<times> jsval) list" where
  "for_in (JObj kvs) =
     sort_key index_order (filter (\<lambda>p. array_index (fst p)) kvs)
       @ filter (\<lambda>p. \<not> array_index (fst p)) kvs"
| "for_in (JArr xs) = zip (map decimal [0..<length xs]) xs"
| "for_in v = []"

text \<open>
  The read \<^verbatim>\<open>options.k\<close> or \<^verbatim>\<open>options?.k\<close> of an option named \<open>k\<close>. The program
  reads the names \<^verbatim>\<open>array\<close>, \<^verbatim>\<open>object\<close> and \<^verbatim>\<open>allowReserved\<close> in this way; no
  prototype has a member of such a name, so the value is that of the own property, and
  \<^verbatim>\<open>undefined\<close> when there is none or \<open>options\<close> is not an object.
\<close>

definition read_option :: "jsval \<Rightarrow> string \<Rightarrow> jsval" where
  "read_option opts k =
     (case opts of
        JObj props \<Rightarrow> (case map_of props k of None \<Rightarrow> JUndefined | Some v \<Rightarrow> v)
      | _ \<Rightarrow> JUndefined)"

text \<open>
  The value of the property \<open>k\<close> in the object spread \<^verbatim>\<open>{k: dflt, ...source}\<close>: an own
  enumerable property of the source wins, also when its value is \<^verbatim>\<open>undefined\<close>.
\<close>

definition spread_property :: "jsval \<Rightarrow> jsval \<Rightarrow> string \<Rightarrow> jsval" where
  "spread_property dflt source k =
     (case map_of (for_in source) k of None \<Rightarrow> dflt | Some v \<Rightarrow> v)"

text \<open>
  The names of the members of \<^verbatim>\<open>Object.prototype\<close>, which a lookup in a plain object
  finds when the object has no own property of that name.
\<close>

definition Object_prototype_members :: "string list" where
  "Object_prototype_members =
     [''constructor'', ''__defineGetter__'', ''__defineSetter__'', ''hasOwnProperty'',
      ''__lookupGetter__'', ''__lookupSetter__'', ''isPrototypeOf'', ''propertyIsEnumerable'',
      ''toString'', ''valueOf'', ''__proto__'', ''toLocaleString'']"

text \<open>
  A table lookup \<^verbatim>\<open>{...}[key] || fallback\<close> in an object literal of non-empty strings.
  The key is converted to a property name.
\<close>

definition table_lookup :: "(string \<times> string) list \<Rightarrow> jsval \<Rightarrow> string \<Rightarrow> error + string" where
  "table_lookup table key fallback =
     (case map_of table (ToString key) of
        Some s \<Rightarrow> Inr s
      | None \<Rightarrow>
          if List.member Object_prototype_members (ToString key) then Inl OutsideModel
          else Inr fallback)"

subsection \<open>encodeURIComponent\<close>

text \<open>
  \<^verbatim>\<open>encodeURIComponent\<close> converts its argument to a string and replaces every byte of its
  UTF-8 encoding by \<^verbatim>\<open>%XX\<close> (upper-case hexadecimal), except the unreserved characters
  \<^verbatim>\<open>A-Z a-z 0-9 - _ . ! ~ * ' ( )\<close>. (A lone surrogate, on which the platform function
  throws, has no UTF-8 encoding and so is not a string of this model.)
\<close>

definition uri_unreserved :: "char set" where
  "uri_unreserved =
     set (''ABCDEFGHIJKLMNOPQRSTUVWXYZabcdefghijklmnopqrstuvwxyz0123456789-_.!~*()'' @ [CHR 0x27])"

definition hex_digit :: "nat \<Rightarrow> char" where
  "hex_digit n = ''0123456789ABCDEF'' ! n"

definition percent_encode :: "char \<Rightarrow> string" where
  "percent_encode c =
     (if c \<in> uri_unreserved then [c]
      else [CHR ''%'', hex_digit (of_char c div 16), hex_digit (of_char c mod 16)])"

definition uri_escape :: "string \<Rightarrow> string" where
  "uri_escape s = concat (map percent_encode s)"

definition encodeURIComponent :: "jsval \<Rightarrow> string" where
  "encodeURIComponent v = uri_escape (ToString v)"

section \<open>Parameter encoders\<close>

text \<open>
  The options object of the array and object encoders, as far as they read it: the
  values of its properties \<^verbatim>\<open>style\<close>, \<^verbatim>\<open>explode\<close> and \<^verbatim>\<open>allowReserved\<close>
  (\<^verbatim>\<open>undefined\<close> for a property that is absent). A style is any value; the styles of
  OpenAPI are the strings \<^verbatim>\<open>simple\<close>, \<^verbatim>\<open>label\<close>, \<^verbatim>\<open>matrix\<close>, \<^verbatim>\<open>form\<close>,
  \<^verbatim>\<open>spaceDelimited\<close>, \<^verbatim>\<open>pipeDelimited\<close> and \<^verbatim>\<open>deepObject\<close>.
\<close>

record options =
  style :: jsval
  explode :: jsval
  allowReserved :: jsval

text \<open>
  \<^verbatim>\<open>serializePrimitiveParam(name, value, options)\<close>. The function reads only
  \<^verbatim>\<open>options?.allowReserved\<close>, which is its third argument here (\<^verbatim>\<open>undefined\<close> when
  \<^verbatim>\<open>options\<close> or the property is undefined).
\<close>

definition serializePrimitiveParam :: "string \<Rightarrow> jsval \<Rightarrow> jsval \<Rightarrow> error + string" where
  "serializePrimitiveParam name value allowReserved_value =
     (if value = JUndefined \<or> value = JNull then Inr ''''
      else if typeof value = ''object'' then Inl UnsupportedValueError
      else Inr (name @ ''='' @
             (if allowReserved_value = JBool True then ToString value
              else encodeURIComponent value)))"

text \<open>The joiner table \<^verbatim>\<open>{simple: ",", label: ".", matrix: ";"}[options.style] || "&"\<close>.\<close>

definition explode_joiner :: "jsval \<Rightarrow> error + string" where
  "explode_joiner st =
     table_lookup [(''simple'', '',''), (''label'', ''.''), (''matrix'', '';'')] st ''&''"

text \<open>The loop of the \<^verbatim>\<open>explode: false\<close> branch of \<^verbatim>\<open>serializeObjectParam\<close>.\<close>

fun object_flat_loop :: "options \<Rightarrow> (string \<times> jsval) list \<Rightarrow> jsval list \<Rightarrow> jsval list" where
  "object_flat_loop opts [] values = values"
| "object_flat_loop opts ((k, v) # rest) values =
     object_flat_loop opts rest
       (values @ [JStr k,
          if allowReserved opts = JBool True then v else JStr (encodeURIComponent v)])"

text \<open>The loop of the \<^verbatim>\<open>explode: true\<close> branch of \<^verbatim>\<open>serializeObjectParam\<close>.\<close>

fun object_explode_loop ::
  "string \<Rightarrow> options \<Rightarrow> (string \<times> jsval) list \<Rightarrow> string list \<Rightarrow> error + string list" where
  "object_explode_loop name opts [] values = Inr values"
| "object_explode_loop name opts ((k, v) # rest) values =
     (let finalName = (if style opts = JStr ''deepObject'' then name @ ''['' @ k @ '']'' else k)
      in case serializePrimitiveParam finalName v (allowReserved opts) of
           Inl e \<Rightarrow> Inl e
         | Inr s \<Rightarrow> object_explode_loop name opts rest (values @ [s]))"

text \<open>
  \<^verbatim>\<open>serializeObjectParam(name, value, options)\<close>. The joiner is looked up first, as in
  the source, and used by the \<^verbatim>\<open>explode: true\<close> branch only.
\<close>

definition serializeObjectParam :: "string \<Rightarrow> jsval \<Rightarrow> options \<Rightarrow> error + string" where
  "serializeObjectParam name value opts =
     (if \<not> truthy value \<or> typeof value \<noteq> ''object'' then Inr ''''
      else
        let joiner = explode_joiner (style opts) in
        if style opts \<noteq> JStr ''deepObject'' \<and> explode opts = JBool False then
          let values = object_flat_loop opts (for_in value) [];
              final = Array_join values '',''
          in Inr (if style opts = JStr ''form'' then name @ ''='' @ final
                  else if style opts = JStr ''label'' then ''.'' @ final
                  else if style opts = JStr ''matrix'' then '';'' @ name @ ''='' @ final
                  else final)
        else
          case object_explode_loop name opts (for_in value) [] of
            Inl e \<Rightarrow> Inl e
          | Inr values \<Rightarrow>
              (case joiner of
                 Inl e \<Rightarrow> Inl e
               | Inr j \<Rightarrow>
                   let final = join_strings j values
                   in Inr (if style opts = JStr ''label'' \<or> style opts = JStr ''matrix''
                           then j @ final else final)))"

text \<open>
  The joiner table of the \<^verbatim>\<open>explode: false\<close> branch of \<^verbatim>\<open>serializeArrayParam\<close>:
  \<^verbatim>\<open>{form: ",", spaceDelimited: "%20", pipeDelimited: "|"}[options.style] || ","\<close>.
\<close>

definition array_flat_joiner :: "jsval \<Rightarrow> error + string" where
  "array_flat_joiner st =
     table_lookup [(''form'', '',''), (''spaceDelimited'', ''%20''), (''pipeDelimited'', ''|'')]
       st '',''"

text \<open>The loop of the \<^verbatim>\<open>explode: true\<close> branch of \<^verbatim>\<open>serializeArrayParam\<close>.\<close>

fun array_explode_loop ::
  "string \<Rightarrow> options \<Rightarrow> jsval list \<Rightarrow> jsval list \<Rightarrow> error + jsval list" where
  "array_explode_loop name opts [] values = Inr values"
| "array_explode_loop name opts (v # rest) values =
     (if style opts = JStr ''simple'' \<or> style opts = JStr ''label'' then
        array_explode_loop name opts rest
          (values @ [if allowReserved opts = JBool True then v
                     else JStr (encodeURIComponent v)])
      else
        case serializePrimitiveParam name v (allowReserved opts) of
          Inl e \<Rightarrow> Inl e
        | Inr s \<Rightarrow> array_explode_loop name opts rest (values @ [JStr s]))"

definition serializeArrayParam :: "string \<Rightarrow> jsval \<Rightarrow> options \<Rightarrow> error + string" where
  "serializeArrayParam name value opts =
     (case value of
        JArr elems \<Rightarrow>
          if explode opts = JBool False then
            (case array_flat_joiner (style opts) of
               Inl e \<Rightarrow> Inl e
             | Inr joiner \<Rightarrow>
                 let final = Array_join
                               (if allowReserved opts = JBool True then elems
                                else map (\<lambda>v. JStr (encodeURIComponent v)) elems)
                               joiner
                 in Inr (if style opts = JStr ''simple'' then final
                         else if style opts = JStr ''label'' then ''.'' @ final
                         else if style opts = JStr ''matrix'' then '';'' @ name @ ''='' @ final
                         else name @ ''='' @ final))
          else
            (case array_explode_loop name opts elems [] of
               Inl e \<Rightarrow> Inl e
             | Inr values \<Rightarrow>
                 (case explode_joiner (style opts) of
                    Inl e \<Rightarrow> Inl e
                  | Inr joiner \<Rightarrow>
                      Inr (if style opts = JStr ''label'' \<or> style opts = JStr ''matrix''
                           then joiner @ Array_join values joiner
                           else Array_join values joiner)))
      | _ \<Rightarrow> Inr '''')"

section \<open>Query serializer\<close>

text \<open>
  The argument \<open>go\<close> of \<^verbatim>\<open>createQuerySerializer\<close> is \<^verbatim>\<open>undefined\<close> or an object
  \<^verbatim>\<open>{array?, object?, allowReserved?}\<close>.

  \<^verbatim>\<open>options?.allowReserved || false\<close>:
\<close>

definition allowReserved_or_false :: "jsval \<Rightarrow> jsval" where
  "allowReserved_or_false go =
     (if truthy (read_option go ''allowReserved'') then read_option go ''allowReserved''
      else JBool False)"

text \<open>
  \<^verbatim>\<open>{style: "form", explode: true, ...options?.array, allowReserved: ...}\<close> and
  \<^verbatim>\<open>{style: "deepObject", explode: true, ...options?.object, allowReserved: ...}\<close>
\<close>

definition array_options :: "jsval \<Rightarrow> options" where
  "array_options go =
     \<lparr> style = spread_property (JStr ''form'') (read_option go ''array'') ''style'',
       explode = spread_property (JBool True) (read_option go ''array'') ''explode'',
       allowReserved = allowReserved_or_false go \<rparr>"

definition object_options :: "jsval \<Rightarrow> options" where
  "object_options go =
     \<lparr> style = spread_property (JStr ''deepObject'') (read_option go ''object'') ''style'',
       explode = spread_property (JBool True) (read_option go ''object'') ''explode'',
       allowReserved = allowReserved_or_false go \<rparr>"

text \<open>The loop of \<^verbatim>\<open>querySerializer\<close>; \<open>search\<close> is the array the fragments are pushed to.\<close>

fun querySerializer_loop ::
  "jsval \<Rightarrow> (string \<times> jsval) list \<Rightarrow> string list \<Rightarrow> error + string list" where
  "querySerializer_loop go [] search = Inr search"
| "querySerializer_loop go ((name, v) # rest) search =
     (if v = JUndefined \<or> v = JNull then querySerializer_loop go rest search
      else if isArray v then
        (case serializeArrayParam name v (array_options go) of
           Inl e \<Rightarrow> Inl e
         | Inr s \<Rightarrow> querySerializer_loop go rest (search @ [s]))
      else if typeof v = ''object'' then
        (case serializeObjectParam name v (object_options go) of
           Inl e \<Rightarrow> Inl e
         | Inr s \<Rightarrow> querySerializer_loop go rest (search @ [s]))
      else
        (case serializePrimitiveParam name v (read_option go ''allowReserved'') of
           Inl e \<Rightarrow> Inl e
         | Inr s \<Rightarrow> querySerializer_loop go rest (search @ [s])))"

definition createQuerySerializer :: "jsval \<Rightarrow> jsval \<Rightarrow> error + string" where
  "createQuerySerializer go queryParams =
     (case (if truthy queryParams \<and> typeof queryParams = ''object''
            then querySerializer_loop go (for_in queryParams) []
            else Inr [])
      of Inl e \<Rightarrow> Inl e
       | Inr search \<Rightarrow> Inr (join_strings ''&'' search))"

section \<open>Path serializer\<close>

text \<open>
  \<^verbatim>\<open>pathname.match(/\{[^{}]+\}/g)\<close>: all matches from left to right, without overlap.
  At an opening brace the class \<^verbatim>\<open>[^{}]+\<close> takes the longest run of characters that
  are not braces; the match succeeds when that run is not empty and a closing brace
  follows. The empty list stands for both \<^verbatim>\<open>null\<close> and an empty array of matches.
\<close>

definition not_brace :: "char \<Rightarrow> bool" where
  "not_brace c = (c \<noteq> CHR ''{'' \<and> c \<noteq> CHR ''}'')"

function match_PATH_PARAM_RE :: "string \<Rightarrow> string list" where
  "match_PATH_PARAM_RE [] = []"
| "match_PATH_PARAM_RE (c # cs) =
     (if c = CHR ''{'' then
        (let run = takeWhile not_brace cs; rest = dropWhile not_brace cs
         in if run \<noteq> [] \<and> rest \<noteq> [] \<and> hd rest = CHR ''}''
            then (c # run @ ''}'') # match_PATH_PARAM_RE (tl rest)
            else match_PATH_PARAM_RE cs)
      else match_PATH_PARAM_RE cs)"
  by pat_completeness auto
termination
proof (relation "measure length")
  show "wf (measure length)" by simp
next
  fix c :: char and cs run rest :: string
  assume "rest = dropWhile not_brace cs"
  moreover have "length (dropWhile not_brace cs) \<le> length cs"
    by (rule length_dropWhile_le)
  ultimately have "length (tl rest) \<le> length cs" by simp
  then show "(tl rest, c # cs) \<in> measure length" by simp
qed simp_all

text \<open>
  \<^verbatim>\<open>s.replace(pattern, replacement)\<close> with a string pattern: only the first occurrence
  is replaced, and in the replacement text \<^verbatim>\<open>$$\<close> stands for a dollar sign,
  \<^verbatim>\<open>$&\<close> for the matched text, \<^verbatim>\<open>$`\<close> for the text before the match and
  \<^verbatim>\<open>$'\<close> for the text after it (a string pattern has no capture groups, so every
  other dollar sign is literal).
\<close>

fun find_first :: "string \<Rightarrow> string \<Rightarrow> (string \<times> string) option" where
  "find_first pat [] = (if pat = [] then Some ([], []) else None)"
| "find_first pat (c # cs) =
     (if prefix pat (c # cs) then Some ([], drop (length pat) (c # cs))
      else map_option (\<lambda>(pre, post). (c # pre, post)) (find_first pat cs))"

fun GetSubstitution :: "string \<Rightarrow> string \<Rightarrow> string \<Rightarrow> string \<Rightarrow> string" where
  "GetSubstitution matched pre post [] = []"
| "GetSubstitution matched pre post [c] = [c]"
| "GetSubstitution matched pre post (c # d # rest) =
     (if c = CHR ''$'' \<and> d = CHR ''$'' then CHR ''$'' # GetSubstitution matched pre post rest
      else if c = CHR ''$'' \<and> d = CHR ''&'' then matched @ GetSubstitution matched pre post rest
      else if c = CHR ''$'' \<and> d = CHR 0x60 then pre @ GetSubstitution matched pre post rest
      else if c = CHR ''$'' \<and> d = CHR 0x27 then post @ GetSubstitution matched pre post rest
      else c # GetSubstitution matched pre post (d # rest))"

definition String_replace :: "string \<Rightarrow> string \<Rightarrow> string \<Rightarrow> string" where
  "String_replace s pat replacement =
     (case find_first pat s of
        None \<Rightarrow> s
      | Some (pre, post) \<Rightarrow> pre @ GetSubstitution pat pre post replacement @ post)"

definition endsWith :: "string \<Rightarrow> string \<Rightarrow> bool" where
  "endsWith s x = suffix x s"

definition startsWith :: "string \<Rightarrow> string \<Rightarrow> bool" where
  "startsWith s x = prefix x s"

text \<open>
  The property read \<^verbatim>\<open>pathParams[paramName]\<close> on a plain object: the own property,
  and \<^verbatim>\<open>undefined\<close> for a name that the object does not have, unless a member of
  \<^verbatim>\<open>Object.prototype\<close> has that name; the read then finds a built-in function.
\<close>

definition property :: "(string \<times> jsval) list \<Rightarrow> string \<Rightarrow> error + jsval" where
  "property obj k =
     (case map_of obj k of
        Some v \<Rightarrow> Inr v
      | None \<Rightarrow> if List.member Object_prototype_members k then Inl OutsideModel
                else Inr JUndefined)"

text \<open>
  The body of the loop of \<^verbatim>\<open>defaultPathSerializer\<close> for one match: the new value of
  \<^verbatim>\<open>nextURL\<close>. \<open>pathParams\<close> is \<open>None\<close> when the argument is \<^verbatim>\<open>undefined\<close> or
  \<^verbatim>\<open>null\<close>, and a plain object otherwise.
\<close>

definition path_step ::
  "(string \<times> jsval) list option \<Rightarrow> string \<Rightarrow> string \<Rightarrow> error + string" where
  "path_step pathParams match nextURL =
     (let paramName0 = take (length match - 2) (drop 1 match);
          explode1 = endsWith paramName0 ''*'';
          paramName1 = (if explode1 then take (length paramName0 - 1) paramName0 else paramName0);
          style1 = (if startsWith paramName1 ''.'' then ''label''
                    else if startsWith paramName1 '';'' then ''matrix'' else ''simple'');
          paramName = (if startsWith paramName1 ''.'' \<or> startsWith paramName1 '';''
                       then drop 1 paramName1 else paramName1)
      in case pathParams of
           None \<Rightarrow> Inr nextURL
         | Some obj \<Rightarrow>
             (case property obj paramName of
                Inl e \<Rightarrow> Inl e
              | Inr v \<Rightarrow>
                  let opts = \<lparr> style = JStr style1, explode = JBool explode1,
                               allowReserved = JUndefined \<rparr>
                  in if v = JUndefined \<or> v = JNull then Inr nextURL
                     else if isArray v then
                       (case serializeArrayParam paramName v opts of
                          Inl e \<Rightarrow> Inl e
                        | Inr s \<Rightarrow> Inr (String_replace nextURL match s))
                     else if typeof v = ''object'' then
                       (case serializeObjectParam paramName v opts of
                          Inl e \<Rightarrow> Inl e
                        | Inr s \<Rightarrow> Inr (String_replace nextURL match s))
                     else if style1 = ''matrix'' then
                       (case serializePrimitiveParam paramName v JUndefined of
                          Inl e \<Rightarrow> Inl e
                        | Inr s \<Rightarrow> Inr (String_replace nextURL match ('';'' @ s)))
                     else
                       Inr (String_replace nextURL match
                              (if style1 = ''label'' then ''.'' @ ToString v else ToString v))))"

fun path_loop ::
  "(string \<times> jsval) list option \<Rightarrow> string list \<Rightarrow> string \<Rightarrow> error + string" where
  "path_loop pathParams [] nextURL = Inr nextURL"
| "path_loop pathParams (match # matches) nextURL =
     (case path_step pathParams match nextURL of
        Inl e \<Rightarrow> Inl e
      | Inr nextURL' \<Rightarrow> path_loop pathParams matches nextURL')"

text \<open>The result is \<open>JUndefined\<close> or a string \<open>JStr url\<close>.\<close>

definition defaultPathSerializer ::
  "string \<Rightarrow> (string \<times> jsval) list option \<Rightarrow> error + jsval" where
  "defaultPathSerializer pathname pathParams =
     (let matches = match_PATH_PARAM_RE pathname in
      if matches = [] then Inr JUndefined
      else case path_loop pathParams matches pathname of
             Inl e \<Rightarrow> Inl e
           | Inr nextURL \<Rightarrow> Inr (JStr nextURL))"

section \<open>Final URL\<close>

text \<open>
  The \<^verbatim>\<open>params\<close> object of a request. \<open>path\<close> is \<open>None\<close> when the property is absent
  (or otherwise falsy) and the plain object of path parameters otherwise; \<open>query\<close> is
  \<open>None\<close> when the property is \<^verbatim>\<open>undefined\<close> or \<^verbatim>\<open>null\<close>.
\<close>

record 'h params =
  path :: "(string \<times> jsval) list option"
  query :: "jsval option"
  header :: 'h

record 'h url_options =
  baseUrl :: string
  params :: "'h params option"
  querySerializer :: "jsval \<Rightarrow> error + string"

text \<open>\<^verbatim>\<open>.replace(/^\?+/, "")\<close>\<close>

definition strip_LEADING_QUESTION_RE :: "string \<Rightarrow> string" where
  "strip_LEADING_QUESTION_RE s = dropWhile (\<lambda>c. c = CHR ''?'') s"

text \<open>
  \<^verbatim>\<open>createFinalURL(pathname, options)\<close>. The result is a JavaScript value because
  \<^verbatim>\<open>finalURL\<close> is assigned the result of \<^verbatim>\<open>defaultPathSerializer\<close>, which can be
  \<^verbatim>\<open>undefined\<close>; \<^verbatim>\<open>finalURL += `?${search}`\<close> converts it to a string first. Reading
  \<^verbatim>\<open>options.params.query\<close> when \<^verbatim>\<open>options.params\<close> is undefined throws a TypeError.
\<close>

definition createFinalURL :: "string \<Rightarrow> 'h url_options \<Rightarrow> error + jsval" where
  "createFinalURL pathname opts =
     (let finalURL0 = baseUrl opts @ pathname in
      case (case Option.bind (params opts) path of
              Some pathParams \<Rightarrow> defaultPathSerializer finalURL0 (Some pathParams)
            | None \<Rightarrow> Inr (JStr finalURL0))
      of Inl e \<Rightarrow> Inl e
       | Inr finalURL \<Rightarrow>
           (case params opts of
              None \<Rightarrow> Inl TypeError
            | Some ps \<Rightarrow>
                (case querySerializer opts (case query ps of None \<Rightarrow> JObj [] | Some q \<Rightarrow> q) of
                   Inl e \<Rightarrow> Inl e
                 | Inr s \<Rightarrow>
                     let search = strip_LEADING_QUESTION_RE s
                     in Inr (if search \<noteq> [] then JStr (ToString finalURL @ ''?'' @ search)
                             else finalURL))))"

section \<open>Headers\<close>

text \<open>
  \<^verbatim>\<open>Headers\<close> is the class of the Fetch standard, provided by the platform. A
  \<^verbatim>\<open>Headers\<close> object is modelled by its header list, with every name stored in lower
  case (the platform compares names without regard to case and reports them in lower
  case). \<^verbatim>\<open>set\<close> and \<^verbatim>\<open>delete\<close> throw a TypeError on a name that is not a token;
  \<^verbatim>\<open>set\<close> strips leading and trailing white space from the value and then throws a
  TypeError on a value that holds a NUL, a line feed or a carriage return, or a character
  above U+00FF (whose UTF-8 encoding starts with a byte of 0xC4 or more).
\<close>

type_synonym Headers = "(string \<times> string) list"

definition lower_char :: "char \<Rightarrow> char" where
  "lower_char c =
     (case map_of (zip ''ABCDEFGHIJKLMNOPQRSTUVWXYZ'' ''abcdefghijklmnopqrstuvwxyz'') c of
        Some d \<Rightarrow> d
      | None \<Rightarrow> c)"

definition lowercase :: "string \<Rightarrow> string" where
  "lowercase s = map lower_char s"

definition token_chars :: "char list" where
  "token_chars =
     ''ABCDEFGHIJKLMNOPQRSTUVWXYZabcdefghijklmnopqrstuvwxyz0123456789!#$%&*+-.^_|~''
       @ [CHR 0x27, CHR 0x60]"

definition valid_header_name :: "string \<Rightarrow> bool" where
  "valid_header_name name = (name \<noteq> [] \<and> list_all (\<lambda>c. List.member token_chars c) name)"

definition http_whitespace :: "char \<Rightarrow> bool" where
  "http_whitespace c = List.member [CHR 0x09, CHR 0x0A, CHR 0x0D, CHR 0x20] c"

definition normalize_header_value :: "string \<Rightarrow> string" where
  "normalize_header_value v = rev (dropWhile http_whitespace (rev (dropWhile http_whitespace v)))"

definition valid_header_value :: "string \<Rightarrow> bool" where
  "valid_header_value v =
     list_all (\<lambda>c. \<not> List.member [CHR 0x00, CHR 0x0A, CHR 0x0D] c \<and> (of_char c :: nat) < 196) v"

definition Headers_get :: "string \<Rightarrow> Headers \<Rightarrow> string option" where
  "Headers_get name h =
     (let vs = map snd (filter (\<lambda>e. fst e = lowercase name) h)
      in if vs = [] then None else Some (join_strings '', '' vs))"

fun set_first :: "string \<Rightarrow> string \<Rightarrow> Headers \<Rightarrow> Headers" where
  "set_first name v [] = [(name, v)]"
| "set_first name v (e # es) =
     (if fst e = name then (name, v) # filter (\<lambda>e'. fst e' \<noteq> name) es
      else e # set_first name v es)"

definition Headers_set :: "string \<Rightarrow> string \<Rightarrow> Headers \<Rightarrow> error + Headers" where
  "Headers_set name v h =
     (let v' = normalize_header_value v in
      if \<not> valid_header_name name \<or> \<not> valid_header_value v' then Inl TypeError
      else Inr (set_first (lowercase name) v' h))"

definition Headers_delete :: "string \<Rightarrow> Headers \<Rightarrow> error + Headers" where
  "Headers_delete name h =
     (if \<not> valid_header_name name then Inl TypeError
      else Inr (filter (\<lambda>e. fst e \<noteq> lowercase name) h))"

text \<open>
  \<^verbatim>\<open>entries()\<close>: the names in sorted order, each once with its combined value, except
  \<^verbatim>\<open>set-cookie\<close>, whose values are reported one by one.
\<close>

definition Headers_entries :: "Headers \<Rightarrow> (string \<times> string) list" where
  "Headers_entries h =
     concat (map (\<lambda>name.
                if name = ''set-cookie'' then filter (\<lambda>e. fst e = name) h
                else (case Headers_get name h of None \<Rightarrow> [] | Some v \<Rightarrow> [(name, v)]))
             (sort (remdups (map fst h))))"

section \<open>mergeHeaders\<close>

text \<open>An argument of \<^verbatim>\<open>mergeHeaders\<close>: a \<^verbatim>\<open>Headers\<close> instance or any other value.\<close>

datatype header_source = HeadersInstance Headers | Plain jsval

text \<open>The inner loop, over the entries of one source.\<close>

fun merge_entries :: "(string \<times> jsval) list \<Rightarrow> Headers \<Rightarrow> error + Headers" where
  "merge_entries [] headers = Inr headers"
| "merge_entries ((k, v) # rest) headers =
     (if v = JNull then
        (case Headers_delete k headers of
           Inl e \<Rightarrow> Inl e
         | Inr headers' \<Rightarrow> merge_entries rest headers')
      else if v \<noteq> JUndefined then
        (case Headers_set k (ToString v) headers of
           Inl e \<Rightarrow> Inl e
         | Inr headers' \<Rightarrow> merge_entries rest headers')
      else merge_entries rest headers)"

text \<open>
  What the \<^verbatim>\<open>for ... of iterator\<close> loop runs over; \<open>None\<close> for a source that the
  guard \<^verbatim>\<open>!headerSet || typeof headerSet !== "object"\<close> skips.
\<close>

fun source_entries :: "header_source \<Rightarrow> (string \<times> jsval) list option" where
  "source_entries (HeadersInstance h) = Some (map (\<lambda>(k, v). (k, JStr v)) (Headers_entries h))"
| "source_entries (Plain v) =
     (if \<not> truthy v \<or> typeof v \<noteq> ''object'' then None else Some (for_in v))"

fun mergeHeaders_loop :: "header_source list \<Rightarrow> Headers \<Rightarrow> error + Headers" where
  "mergeHeaders_loop [] headers = Inr headers"
| "mergeHeaders_loop (headerSet # rest) headers =
     (case source_entries headerSet of
        None \<Rightarrow> mergeHeaders_loop rest headers
      | Some entries \<Rightarrow>
          (case merge_entries entries headers of
             Inl e \<Rightarrow> Inl e
           | Inr headers' \<Rightarrow> mergeHeaders_loop rest headers'))"

definition mergeHeaders :: "header_source list \<Rightarrow> error + Headers" where
  "mergeHeaders allHeaders = mergeHeaders_loop allHeaders []"

section \<open>The client and coreFetch\<close>

text \<open>
  The platform functions that \<^verbatim>\<open>coreFetch\<close> reaches through \<^verbatim>\<open>JSON.stringify\<close> and
  \<^verbatim>\<open>Response.json()\<close> are parameters of the model; \<open>JSON_parse\<close> gives \<open>None\<close> on
  a text that is not JSON (where the platform throws a SyntaxError).
\<close>

record platform =
  JSON_stringify :: "jsval \<Rightarrow> jsval"
  JSON_parse :: "string \<Rightarrow> jsval option"

text \<open>What a body serializer returns: a value (a string as a rule) or a \<^verbatim>\<open>FormData\<close>.\<close>

datatype request_body = BodyValue jsval | BodyFormData "(string \<times> string) list"

definition defaultBodySerializer :: "platform \<Rightarrow> jsval \<Rightarrow> request_body" where
  "defaultBodySerializer P body = BodyValue (JSON_stringify P body)"

text \<open>
  The transport's response, as far as \<^verbatim>\<open>coreFetch\<close> reads it. \<open>body\<close> is the whole
  body text (\<open>None\<close> for a response without a body); every \<^verbatim>\<open>clone()\<close> reads the
  same text.
\<close>

record response =
  ok :: bool
  status :: nat
  response_headers :: Headers
  body :: "string option"

definition Response_text :: "response \<Rightarrow> string" where
  "Response_text r = (case body r of None \<Rightarrow> [] | Some b \<Rightarrow> b)"

definition Response_json :: "platform \<Rightarrow> response \<Rightarrow> error + jsval" where
  "Response_json P r =
     (case JSON_parse P (Response_text r) of None \<Rightarrow> Inl SyntaxError | Some v \<Rightarrow> Inr v)"

text \<open>
  \<^verbatim>\<open>parseAs\<close>; \<open>AsOther\<close> is a name for which the response has no method, so that
  \<^verbatim>\<open>typeof cloned[parseAs] === "function"\<close> is false.
\<close>

datatype parseAs = AsJson | AsText | AsBlob | AsArrayBuffer | AsStream | AsOther string

datatype payload =
    Value jsval
  | BlobOf string
  | ArrayBufferOf string
  | StreamOf "string option"

text \<open>The result of a call: \<^verbatim>\<open>{data, response}\<close> or \<^verbatim>\<open>{error, response}\<close>.\<close>

datatype fetch_result = Success payload response | Failure payload response

text \<open>The call \<^verbatim>\<open>cloned[parseAs]()\<close> with its fall-back to \<^verbatim>\<open>cloned.text()\<close>.\<close>

fun parse_body :: "platform \<Rightarrow> parseAs \<Rightarrow> response \<Rightarrow> error + payload" where
  "parse_body P AsJson r = (case Response_json P r of Inl e \<Rightarrow> Inl e | Inr v \<Rightarrow> Inr (Value v))"
| "parse_body P AsText r = Inr (Value (JStr (Response_text r)))"
| "parse_body P AsBlob r = Inr (BlobOf (Response_text r))"
| "parse_body P AsArrayBuffer r = Inr (ArrayBufferOf (Response_text r))"
| "parse_body P AsStream r = Inr (Value (JStr (Response_text r)))"
| "parse_body P (AsOther name) r = Inr (Value (JStr (Response_text r)))"

text \<open>Lines 90 to 124 of \<^verbatim>\<open>coreFetch\<close>: what is returned for a response.\<close>

definition handle_response :: "platform \<Rightarrow> parseAs \<Rightarrow> response \<Rightarrow> error + fetch_result" where
  "handle_response P parse_as r =
     (if status r = 204 \<or> Headers_get ''Content-Length'' (response_headers r) = Some ''0'' then
        Inr (if ok r then Success (Value (JObj [])) r else Failure (Value (JObj [])) r)
      else if ok r then
        (if parse_as = AsStream then Inr (Success (StreamOf (body r)) r)
         else case parse_body P parse_as r of
                Inl e \<Rightarrow> Inl e
              | Inr d \<Rightarrow> Inr (Success d r))
      else
        (let error = (case Response_json P r of
                        Inr v \<Rightarrow> v
                      | Inl e \<Rightarrow> JStr (Response_text r))
         in Inr (Failure (Value error) r)))"

text \<open>
  The request handed to the transport: \<^verbatim>\<open>fetch(finalURL, requestInit)\<close>, with the
  properties \<^verbatim>\<open>headers\<close> and \<^verbatim>\<open>body\<close> of \<^verbatim>\<open>requestInit\<close> and a map of its other
  properties.
\<close>

record request =
  request_url :: jsval
  request_headers :: Headers
  request_body :: "request_body option"
  request_init :: "string \<rightharpoonup> jsval"

type_synonym transport = "request \<Rightarrow> error + response"

text \<open>
  A \<^verbatim>\<open>querySerializer\<close> option: a function, or any other value (\<^verbatim>\<open>undefined\<close> when
  the option is absent).
\<close>

datatype qs_setting = QS_Function "jsval \<Rightarrow> error + string" | QS_Value jsval

text \<open>
  \<^verbatim>\<open>clientOptions\<close>. \<open>client_fetch\<close> is the configured transport or, by default,
  \<^verbatim>\<open>globalThis.fetch\<close>. The properties \<^verbatim>\<open>baseUrl\<close>, \<^verbatim>\<open>headers\<close> and \<^verbatim>\<open>body\<close> are
  part of \<^verbatim>\<open>baseOptions\<close>, as are the remaining properties, which \<open>client_init\<close>
  holds.
\<close>

record client_options =
  client_fetch :: transport
  client_querySerializer :: qs_setting
  client_bodySerializer :: "(jsval \<Rightarrow> request_body) option"
  client_baseUrl :: "string option"
  client_headers :: header_source
  client_body :: "request_body option"
  client_init :: "string \<rightharpoonup> jsval"

text \<open>
  \<^verbatim>\<open>fetchOptions\<close>; \<open>fetch_init\<close> holds the remaining properties (\<^verbatim>\<open>method\<close> among
  them), which are the \<^verbatim>\<open>init\<close> of the source.
\<close>

record fetch_options =
  fetch_fetch :: "transport option"
  fetch_headers :: header_source
  fetch_body :: jsval
  fetch_params :: "header_source params option"
  fetch_parseAs :: "parseAs option"
  fetch_querySerializer :: qs_setting
  fetch_bodySerializer :: "(jsval \<Rightarrow> request_body) option"
  fetch_init :: "string \<rightharpoonup> jsval"

text \<open>Lines 20 to 23 of \<^verbatim>\<open>createClient\<close>: the base URL that every request uses.\<close>

definition client_base :: "client_options \<Rightarrow> string" where
  "client_base clientOptions =
     (let baseUrl0 = (case client_baseUrl clientOptions of None \<Rightarrow> [] | Some b \<Rightarrow> b)
      in if endsWith baseUrl0 ''/'' then take (length baseUrl0 - 1) baseUrl0 else baseUrl0)"

text \<open>
  The object spread
  \<^verbatim>\<open>{...(typeof globalQuerySerializer === "object" ? globalQuerySerializer : {}), ...requestQuerySerializer}\<close>,
  as far as \<^verbatim>\<open>createQuerySerializer\<close> reads it.
\<close>

definition spread_qs_options :: "qs_setting \<Rightarrow> jsval \<Rightarrow> jsval" where
  "spread_qs_options globalQuerySerializer r =
     (let g = (case globalQuerySerializer of
                 QS_Function f \<Rightarrow> JObj []
               | QS_Value v \<Rightarrow> if typeof v = ''object'' then v else JObj [])
      in JObj (map (\<lambda>k. (k, spread_property (spread_property JUndefined g k) r k))
                 [''array'', ''object'', ''allowReserved'']))"

text \<open>Lines 42 to 56: the query serializer of one request.\<close>

definition resolve_querySerializer :: "qs_setting \<Rightarrow> qs_setting \<Rightarrow> jsval \<Rightarrow> error + string" where
  "resolve_querySerializer globalQuerySerializer requestQuerySerializer =
     (let querySerializer0 =
            (case globalQuerySerializer of
               QS_Function f \<Rightarrow> f
             | QS_Value v \<Rightarrow> createQuerySerializer v)
      in case requestQuerySerializer of
           QS_Function f \<Rightarrow> f
         | QS_Value r \<Rightarrow>
             if truthy r
             then createQuerySerializer (spread_qs_options globalQuerySerializer r)
             else querySerializer0)"

definition DEFAULT_HEADERS :: jsval where
  "DEFAULT_HEADERS = JObj [(''Content-Type'', JStr ''application/json'')]"

text \<open>The final URL of a request, as line 59 computes it.\<close>

definition request_finalURL :: "client_options \<Rightarrow> string \<Rightarrow> fetch_options \<Rightarrow> error + jsval" where
  "request_finalURL clientOptions url fetchOptions =
     createFinalURL url
       \<lparr> baseUrl = client_base clientOptions,
         params = Some (case fetch_params fetchOptions of
                          None \<Rightarrow> \<lparr> path = None, query = None, header = Plain JUndefined \<rparr>
                        | Some ps \<Rightarrow> ps),
         querySerializer = resolve_querySerializer (client_querySerializer clientOptions)
                             (fetch_querySerializer fetchOptions) \<rparr>"

text \<open>
  The properties of \<^verbatim>\<open>baseOptions\<close> other than \<^verbatim>\<open>headers\<close> and \<^verbatim>\<open>body\<close>: the
  configured \<^verbatim>\<open>baseUrl\<close>, as it was given, is one of them.
\<close>

definition baseOptions_init :: "client_options \<Rightarrow> string \<rightharpoonup> jsval" where
  "baseOptions_init clientOptions =
     (case client_baseUrl clientOptions of
        None \<Rightarrow> client_init clientOptions
      | Some b \<Rightarrow> (client_init clientOptions)(''baseUrl'' \<mapsto> JStr b))"

text \<open>
  Lines 31 to 86: the request that is sent, with
  \<^verbatim>\<open>requestInit = {redirect: "follow", ...baseOptions, ...init, headers: finalHeaders}\<close>.
\<close>

definition build_request ::
  "platform \<Rightarrow> client_options \<Rightarrow> string \<Rightarrow> fetch_options \<Rightarrow> error + request" where
  "build_request P clientOptions url fetchOptions =
     (let ps = (case fetch_params fetchOptions of
                  None \<Rightarrow> \<lparr> path = None, query = None, header = Plain JUndefined \<rparr>
                | Some ps \<Rightarrow> ps);
          bodySerializer =
            (case fetch_bodySerializer fetchOptions of
               Some f \<Rightarrow> f
             | None \<Rightarrow> (case client_bodySerializer clientOptions of
                          Some f \<Rightarrow> f
                        | None \<Rightarrow> defaultBodySerializer P))
      in case request_finalURL clientOptions url fetchOptions of
           Inl e \<Rightarrow> Inl e
         | Inr finalURL \<Rightarrow>
             (case mergeHeaders [Plain DEFAULT_HEADERS, client_headers clientOptions,
                                 fetch_headers fetchOptions, header ps] of
                Inl e \<Rightarrow> Inl e
              | Inr finalHeaders \<Rightarrow>
                  let init = [''redirect'' \<mapsto> JStr ''follow''] ++ baseOptions_init clientOptions
                               ++ fetch_init fetchOptions;
                      requestBody = (if truthy (fetch_body fetchOptions)
                                     then Some (bodySerializer (fetch_body fetchOptions))
                                     else client_body clientOptions)
                  in case (case requestBody of
                             Some (BodyFormData fd) \<Rightarrow> Headers_delete ''Content-Type'' finalHeaders
                           | _ \<Rightarrow> Inr finalHeaders)
                     of Inl e \<Rightarrow> Inl e
                      | Inr finalHeaders' \<Rightarrow>
                          Inr \<lparr> request_url = finalURL, request_headers = finalHeaders',
                                request_body = requestBody, request_init = init \<rparr>))"

definition coreFetch ::
  "platform \<Rightarrow> client_options \<Rightarrow> string \<Rightarrow> fetch_options \<Rightarrow> error + fetch_result" where
  "coreFetch P clientOptions url fetchOptions =
     (let fetch = (case fetch_fetch fetchOptions of
                     Some f \<Rightarrow> f
                   | None \<Rightarrow> client_fetch clientOptions);
          parse_as = (case fetch_parseAs fetchOptions of None \<Rightarrow> AsJson | Some p \<Rightarrow> p)
      in case build_request P clientOptions url fetchOptions of
           Inl e \<Rightarrow> Inl e
         | Inr req \<Rightarrow>
             (case fetch req of
                Inl e \<Rightarrow> Inl e
              | Inr r \<Rightarrow> handle_response P parse_as r))"

section \<open>Notions used in the properties\<close>

text \<open>A scalar is a boolean, a number or a string.\<close>

definition is_scalar :: "jsval \<Rightarrow> bool" where
  "is_scalar v = (typeof v = ''boolean'' \<or> typeof v = ''number'' \<or> typeof v = ''string'')"

definition nullish :: "jsval \<Rightarrow> bool" where
  "nullish v = (v = JUndefined \<or> v = JNull)"

text \<open>The text that \<^verbatim>\<open>Array.prototype.join\<close> prints for one element.\<close>

definition element_text :: "jsval \<Rightarrow> string" where
  "element_text v = (if v = JUndefined \<or> v = JNull then [] else ToString v)"

text \<open>Running fallible steps in order: the first error ends the run, as a throw does.\<close>

fun sequence_sum :: "(error + 'a) list \<Rightarrow> error + 'a list" where
  "sequence_sum [] = Inr []"
| "sequence_sum (Inl e # rs) = Inl e"
| "sequence_sum (Inr x # rs) =
     (case sequence_sum rs of Inl e \<Rightarrow> Inl e | Inr xs \<Rightarrow> Inr (x # xs))"

text \<open>The encoder that the query serializer chooses for one parameter.\<close>

definition route_param :: "jsval \<Rightarrow> string \<times> jsval \<Rightarrow> error + string" where
  "route_param go p =
     (case p of (name, v) \<Rightarrow>
        if isArray v then serializeArrayParam name v (array_options go)
        else if typeof v = ''object'' then serializeObjectParam name v (object_options go)
        else serializePrimitiveParam name v (read_option go ''allowReserved''))"

text \<open>
  The query serializer in the words of the specification: the parameters are taken in
  the order of their insertion, those that are \<^verbatim>\<open>null\<close> or \<^verbatim>\<open>undefined\<close> are
  skipped, and of the fragments only the non-empty ones are joined with an ampersand.
\<close>

definition spec_querySerializer :: "jsval \<Rightarrow> jsval \<Rightarrow> error + string" where
  "spec_querySerializer go queryParams =
     (case queryParams of
        JObj kvs \<Rightarrow>
          (case sequence_sum (map (route_param go) (filter (\<lambda>p. \<not> nullish (snd p)) kvs)) of
             Inl e \<Rightarrow> Inl e
           | Inr fragments \<Rightarrow> Inr (join_strings ''&'' (filter (\<lambda>f. f \<noteq> []) fragments)))
      | _ \<Rightarrow> Inr [])"

text \<open>The text of a member value: percent-encoded unless \<^verbatim>\<open>allowReserved\<close> is \<^verbatim>\<open>true\<close>.\<close>

definition value_text :: "options \<Rightarrow> jsval \<Rightarrow> string" where
  "value_text opts v =
     (if allowReserved opts = JBool True then ToString v else encodeURIComponent v)"

text \<open>
  The flat form \<^verbatim>\<open>k1,v1,k2,v2,...\<close> of a list of members, and its wrapping per style
  (every style but form, label and matrix gives the bare flat string).
\<close>

definition flat_object :: "options \<Rightarrow> (string \<times> jsval) list \<Rightarrow> string" where
  "flat_object opts kvs =
     join_strings '','' (concat (map (\<lambda>p. [fst p, value_text opts (snd p)]) kvs))"

definition spec_wrap_flat :: "string \<Rightarrow> jsval \<Rightarrow> string \<Rightarrow> string" where
  "spec_wrap_flat name st flat =
     (if st = JStr ''form'' then name @ ''='' @ flat
      else if st = JStr ''label'' then ''.'' @ flat
      else if st = JStr ''matrix'' then '';'' @ name @ ''='' @ flat
      else flat)"

text \<open>
  The object encoder without explode in the words of the specification: the members
  in the order of their insertion, for every style.
\<close>

definition spec_serializeObjectParam_flat ::
  "string \<Rightarrow> (string \<times> jsval) list \<Rightarrow> options \<Rightarrow> string" where
  "spec_serializeObjectParam_flat name kvs opts =
     spec_wrap_flat name (style opts) (flat_object opts kvs)"

text \<open>The fragment \<^verbatim>\<open>name[k]=v\<close> of one member in the style deepObject.\<close>

definition deep_fragment :: "string \<Rightarrow> options \<Rightarrow> string \<times> jsval \<Rightarrow> string" where
  "deep_fragment name opts p = name @ ''['' @ fst p @ '']='' @ value_text opts (snd p)"




text \<open>The test of line 92: status 204, or a \<^verbatim>\<open>Content-Length\<close> header that is \<^verbatim>\<open>"0"\<close>.\<close>

definition empty_content :: "response \<Rightarrow> bool" where
  "empty_content r =
     (status r = 204 \<or> Headers_get ''Content-Length'' (response_headers r) = Some ''0'')"

text \<open>The transport that a request is sent to.\<close>

definition sent_to :: "client_options \<Rightarrow> fetch_options \<Rightarrow> transport" where
  "sent_to clientOptions fetchOptions =
     (case fetch_fetch fetchOptions of Some f \<Rightarrow> f | None \<Rightarrow> client_fetch clientOptions)"

text \<open>The value handed to the query serializer: \<^verbatim>\<open>options.params.query ?? {}\<close>.\<close>

definition query_of :: "'h params \<Rightarrow> jsval" where
  "query_of ps = (case query ps of None \<Rightarrow> JObj [] | Some q \<Rightarrow> q)"

text \<open>The \<^verbatim>\<open>params\<close> of a request, \<^verbatim>\<open>{}\<close> by default.\<close>

definition params_of :: "fetch_options \<Rightarrow> header_source params" where
  "params_of fetchOptions =
     (case fetch_params fetchOptions of
        None \<Rightarrow> \<lparr> path = None, query = None, header = Plain JUndefined \<rparr>
      | Some ps \<Rightarrow> ps)"

text \<open>The suffix that \<^verbatim>\<open>createFinalURL\<close> appends for the serializer output \<open>s\<close>.\<close>

definition query_suffix :: "string \<Rightarrow> string" where
  "query_suffix s =
     (if strip_LEADING_QUESTION_RE s = [] then [] else ''?'' @ strip_LEADING_QUESTION_RE s)"

section \<open>Enumeration order\<close>

lemma for_in_no_index:
  "list_all (\<lambda>p. \<not> array_index (fst p)) kvs \<Longrightarrow> for_in (JObj kvs) = kvs"
proof -
  assume a: "list_all (\<lambda>p. \<not> array_index (fst p)) kvs"
  then have "filter (\<lambda>p. array_index (fst p)) kvs = []"
    by (induction kvs) auto
  moreover from a have "filter (\<lambda>p. \<not> array_index (fst p)) kvs = kvs"
    by (induction kvs) auto
  ultimately show ?thesis by simp
qed

lemma set_for_in: "set (for_in (JObj kvs)) = set kvs"
  by auto

lemma list_all_for_in: "list_all P (for_in (JObj kvs)) = list_all P kvs"
  by (simp only: list_all_iff set_for_in)

lemma filter_key_for_in:
  "filter (\<lambda>p. fst p = k) (for_in (JObj kvs)) = filter (\<lambda>p. fst p = k) kvs"
proof -
  let ?ix = "filter (\<lambda>p. array_index (fst p)) kvs"
  let ?c = "(length k, k)"
  have same: "(\<lambda>p. fst p = k) = (\<lambda>p. index_order p = ?c)"
    by (auto simp: index_order_def fun_eq_iff)
  have sorted_part: "filter (\<lambda>p. fst p = k) (sort_key index_order ?ix) = filter (\<lambda>p. fst p = k) ?ix"
    unfolding same by (rule sort_key_stable)
  show ?thesis
  proof (cases "array_index k")
    case True
    then have "filter (\<lambda>p. fst p = k) (filter (\<lambda>p. \<not> array_index (fst p)) kvs) = []"
      by (induction kvs) auto
    moreover from True have "filter (\<lambda>p. fst p = k) ?ix = filter (\<lambda>p. fst p = k) kvs"
      by (induction kvs) auto
    ultimately show ?thesis using sorted_part by simp
  next
    case False
    then have "filter (\<lambda>p. fst p = k) ?ix = []"
      by (induction kvs) auto
    moreover from False have
      "filter (\<lambda>p. fst p = k) (filter (\<lambda>p. \<not> array_index (fst p)) kvs) =
       filter (\<lambda>p. fst p = k) kvs"
      by (induction kvs) auto
    ultimately show ?thesis using sorted_part by simp
  qed
qed

lemma map_of_filter_key:
  "map_of xs k = (case filter (\<lambda>p. fst p = k) xs of [] \<Rightarrow> None | p # ps \<Rightarrow> Some (snd p))"
  by (induction xs) auto

lemma map_of_for_in: "map_of (for_in (JObj kvs)) k = map_of kvs k"
  by (simp only: map_of_filter_key [of "for_in (JObj kvs)"] map_of_filter_key [of kvs]
      filter_key_for_in)

lemma spread_property_object:
  "spread_property dflt (JObj props) k = (case map_of props k of None \<Rightarrow> dflt | Some v \<Rightarrow> v)"
  by (simp only: spread_property_def map_of_for_in)

lemma spread_property_undefined: "spread_property dflt JUndefined k = dflt"
  by (simp add: spread_property_def)

section \<open>The primitive encoder\<close>

lemma is_scalar_cases:
  "is_scalar v \<longleftrightarrow> (\<exists>b. v = JBool b) \<or> (\<exists>n. v = JNum n) \<or> (\<exists>s. v = JStr s)"
  by (cases v) (simp_all add: is_scalar_def)

text \<open>
  C4. \<^verbatim>\<open>serializePrimitiveParam\<close> returns the empty string for \<^verbatim>\<open>undefined\<close> and for
  \<^verbatim>\<open>null\<close>, throws for every array and every object, and for a scalar value returns
  \<^verbatim>\<open>name=\<close> followed by \<^verbatim>\<open>encodeURIComponent(String(value))\<close> when
  \<^verbatim>\<open>allowReserved\<close> is not \<^verbatim>\<open>true\<close>, and followed by the text of the value itself,
  nothing escaped, when it is \<^verbatim>\<open>true\<close>.
\<close>

theorem serializePrimitiveParam_contract:
  "serializePrimitiveParam name JUndefined ar = Inr '''' \<and>
   serializePrimitiveParam name JNull ar = Inr '''' \<and>
   serializePrimitiveParam name (JArr xs) ar = Inl UnsupportedValueError \<and>
   serializePrimitiveParam name (JObj kvs) ar = Inl UnsupportedValueError \<and>
   (is_scalar v \<and> ar \<noteq> JBool True \<longrightarrow>
      serializePrimitiveParam name v ar =
        Inr (name @ ''='' @ encodeURIComponent (JStr (ToString v)))) \<and>
   (is_scalar v \<and> ar = JBool True \<longrightarrow>
      serializePrimitiveParam name v ar = Inr (name @ ''='' @ ToString v))"
  by (auto simp: serializePrimitiveParam_def is_scalar_cases encodeURIComponent_def)

theorem serializePrimitiveParam_contract_witness:
  "is_scalar (JStr ''a/b c'') \<and>
   serializePrimitiveParam ''q'' (JStr ''a/b c'') JUndefined = Inr ''q=a%2Fb%20c'' \<and>
   serializePrimitiveParam ''q'' (JStr ''a/b c'') (JBool True) = Inr ''q=a/b c'' \<and>
   serializePrimitiveParam ''q'' (JArr []) JUndefined = Inl UnsupportedValueError \<and>
   serializePrimitiveParam ''q'' JNull JUndefined = Inr ''''"
proof -
  have scalar: "is_scalar (JStr ''a/b c'')" by (simp add: is_scalar_def)
  have enc: "encodeURIComponent (JStr (ToString (JStr ''a/b c''))) = ''a%2Fb%20c''"
    by code_simp
  show ?thesis
    using scalar enc
      serializePrimitiveParam_contract [of "''q''" JUndefined "[]" "[]" "JStr ''a/b c''"]
      serializePrimitiveParam_contract [of "''q''" "JBool True" "[]" "[]" "JStr ''a/b c''"]
    by simp
qed

section \<open>The query serializer\<close>

lemma querySerializer_loop_fragments:
  "querySerializer_loop go es search =
     (case sequence_sum (map (route_param go) (filter (\<lambda>p. \<not> nullish (snd p)) es)) of
        Inl e \<Rightarrow> Inl e
      | Inr fragments \<Rightarrow> Inr (search @ fragments))"
proof (induction es arbitrary: search)
  case Nil
  show ?case by simp
next
  case (Cons p es)
  obtain name v where p: "p = (name, v)" by (cases p)
  show ?case
  proof (cases "nullish v")
    case True
    then show ?thesis using Cons.IH p by (auto simp: nullish_def)
  next
    case False
    then have defined: "v \<noteq> JUndefined" "v \<noteq> JNull" by (auto simp: nullish_def)
    show ?thesis
    proof (cases "route_param go (name, v)")
      case (Inl e)
      then show ?thesis using p False defined
        by (auto simp: route_param_def split: if_splits)
    next
      case (Inr s)
      then show ?thesis using p False defined Cons.IH [of "search @ [s]"]
        by (auto simp: route_param_def split: if_splits sum.splits)
    qed
  qed
qed

lemma array_options_object:
  "read_option go ''array'' = JObj props \<Longrightarrow>
     array_options go =
       \<lparr> style = (case map_of props ''style'' of None \<Rightarrow> JStr ''form'' | Some v \<Rightarrow> v),
         explode = (case map_of props ''explode'' of None \<Rightarrow> JBool True | Some v \<Rightarrow> v),
         allowReserved = allowReserved_or_false go \<rparr>"
  by (simp add: array_options_def spread_property_object)

lemma array_options_undefined:
  "read_option go ''array'' = JUndefined \<Longrightarrow>
     array_options go =
       \<lparr> style = JStr ''form'', explode = JBool True,
         allowReserved = allowReserved_or_false go \<rparr>"
  by (simp add: array_options_def spread_property_undefined)

lemma object_options_object:
  "read_option go ''object'' = JObj props \<Longrightarrow>
     object_options go =
       \<lparr> style = (case map_of props ''style'' of None \<Rightarrow> JStr ''deepObject'' | Some v \<Rightarrow> v),
         explode = (case map_of props ''explode'' of None \<Rightarrow> JBool True | Some v \<Rightarrow> v),
         allowReserved = allowReserved_or_false go \<rparr>"
  by (simp add: object_options_def spread_property_object)

lemma object_options_undefined:
  "read_option go ''object'' = JUndefined \<Longrightarrow>
     object_options go =
       \<lparr> style = JStr ''deepObject'', explode = JBool True,
         allowReserved = allowReserved_or_false go \<rparr>"
  by (simp add: object_options_def spread_property_undefined)

text \<open>
  C1, as amended. For every query-parameter mapping the serializer made by
  \<^verbatim>\<open>createQuerySerializer\<close> visits the parameters in the order of \<^verbatim>\<open>for ... in\<close>
  (names that are array indices first, in ascending numeric order, then the other names
  in insertion order; so in insertion order when no name is an array index), skips each
  one whose value is \<^verbatim>\<open>null\<close> or \<^verbatim>\<open>undefined\<close>, sends an array to
  \<^verbatim>\<open>serializeArrayParam\<close> with the options \<^verbatim>\<open>{style: "form", explode: true}\<close> under
  the properties of \<^verbatim>\<open>globalOptions.array\<close> and \<^verbatim>\<open>allowReserved\<close>, an object to
  \<^verbatim>\<open>serializeObjectParam\<close> with \<^verbatim>\<open>{style: "deepObject", explode: true}\<close> under the
  properties of \<^verbatim>\<open>globalOptions.object\<close> and \<^verbatim>\<open>allowReserved\<close>, and any other value
  to \<^verbatim>\<open>serializePrimitiveParam\<close>; the result is all the fragments, the empty ones
  too, joined with an ampersand (so an empty fragment does add a separator).
\<close>

theorem createQuerySerializer_joins_all_fragments:
  "createQuerySerializer go (JObj kvs) =
     (case sequence_sum (map (route_param go)
                          (filter (\<lambda>p. \<not> nullish (snd p)) (for_in (JObj kvs)))) of
        Inl e \<Rightarrow> Inl e
      | Inr fragments \<Rightarrow> Inr (join_strings ''&'' fragments)) \<and>
   for_in (JObj kvs) =
     sort_key index_order (filter (\<lambda>p. array_index (fst p)) kvs)
       @ filter (\<lambda>p. \<not> array_index (fst p)) kvs \<and>
   (list_all (\<lambda>p. \<not> array_index (fst p)) kvs \<longrightarrow> for_in (JObj kvs) = kvs) \<and>
   route_param go (name, JArr xs) = serializeArrayParam name (JArr xs) (array_options go) \<and>
   route_param go (name, JObj m) = serializeObjectParam name (JObj m) (object_options go) \<and>
   (is_scalar v \<longrightarrow>
      route_param go (name, v) =
        serializePrimitiveParam name v (read_option go ''allowReserved'')) \<and>
   (read_option go ''array'' = JObj aprops \<longrightarrow>
      array_options go =
        \<lparr> style = (case map_of aprops ''style'' of None \<Rightarrow> JStr ''form'' | Some v \<Rightarrow> v),
          explode = (case map_of aprops ''explode'' of None \<Rightarrow> JBool True | Some v \<Rightarrow> v),
          allowReserved = allowReserved_or_false go \<rparr>) \<and>
   (read_option go ''array'' = JUndefined \<longrightarrow>
      array_options go =
        \<lparr> style = JStr ''form'', explode = JBool True,
          allowReserved = allowReserved_or_false go \<rparr>) \<and>
   (read_option go ''object'' = JObj oprops \<longrightarrow>
      object_options go =
        \<lparr> style = (case map_of oprops ''style'' of None \<Rightarrow> JStr ''deepObject'' | Some v \<Rightarrow> v),
          explode = (case map_of oprops ''explode'' of None \<Rightarrow> JBool True | Some v \<Rightarrow> v),
          allowReserved = allowReserved_or_false go \<rparr>) \<and>
   (read_option go ''object'' = JUndefined \<longrightarrow>
      object_options go =
        \<lparr> style = JStr ''deepObject'', explode = JBool True,
          allowReserved = allowReserved_or_false go \<rparr>) \<and>
   allowReserved_or_false go =
     (if truthy (read_option go ''allowReserved'') then read_option go ''allowReserved''
      else JBool False)"
proof -
  have "createQuerySerializer go (JObj kvs) =
          (case sequence_sum (map (route_param go)
                               (filter (\<lambda>p. \<not> nullish (snd p)) (for_in (JObj kvs)))) of
             Inl e \<Rightarrow> Inl e
           | Inr fragments \<Rightarrow> Inr (join_strings ''&'' fragments))"
    unfolding createQuerySerializer_def querySerializer_loop_fragments
    by (simp split: sum.splits)
  moreover have "for_in (JObj kvs) =
     sort_key index_order (filter (\<lambda>p. array_index (fst p)) kvs)
       @ filter (\<lambda>p. \<not> array_index (fst p)) kvs"
    by simp
  moreover have "route_param go (name, JArr xs) =
      serializeArrayParam name (JArr xs) (array_options go)"
    by (simp add: route_param_def)
  moreover have "route_param go (name, JObj m) =
      serializeObjectParam name (JObj m) (object_options go)"
    by (simp add: route_param_def)
  moreover have "is_scalar v \<longrightarrow>
      route_param go (name, v) =
        serializePrimitiveParam name v (read_option go ''allowReserved'')"
    by (auto simp: route_param_def is_scalar_cases)
  ultimately show ?thesis
    using for_in_no_index [of kvs]
      array_options_object [of go aprops] array_options_undefined [of go]
      object_options_object [of go oprops] object_options_undefined [of go]
      allowReserved_or_false_def [of go]
    by blast
qed

theorem createQuerySerializer_joins_all_fragments_witness:
  "is_scalar (JNum 0) \<and>
   read_option (JObj [(''object'', JObj [(''style'', JUndefined), (''explode'', JBool False)])])
     ''object'' = JObj [(''style'', JUndefined), (''explode'', JBool False)] \<and>
   createQuerySerializer
     (JObj [(''object'', JObj [(''style'', JUndefined), (''explode'', JBool False)])])
     (JObj [(''b'', JNum (-5)), (''2'', JStr ''''), (''n'', JNull), (''1'', JNum 0),
            (''c'', JArr []), (''a'', JObj [(''k'', JStr ''x y'')])]) =
     Inr ''1=0&2=&b=-5&&k,x%20y'' \<and>
   object_options
     (JObj [(''object'', JObj [(''style'', JUndefined), (''explode'', JBool False)])]) =
     \<lparr>style = JUndefined, explode = JBool False, allowReserved = JBool False\<rparr> \<and>
   array_options
     (JObj [(''object'', JObj [(''style'', JUndefined), (''explode'', JBool False)])]) =
     \<lparr>style = JStr ''form'', explode = JBool True, allowReserved = JBool False\<rparr> \<and>
   list_all (\<lambda>p. \<not> array_index (fst p)) [(''b'', JNum 1), (''a'', JNum 2)] \<and>
   for_in (JObj [(''b'', JNum 1), (''a'', JNum 2)]) = [(''b'', JNum 1), (''a'', JNum 2)]"
proof -
  let ?go = "JObj [(''object'', JObj [(''style'', JUndefined), (''explode'', JBool False)])]"
  let ?kvs = "[(''b'', JNum (-5)), (''2'', JStr ''''), (''n'', JNull), (''1'', JNum 0),
               (''c'', JArr []), (''a'', JObj [(''k'', JStr ''x y'')])]"
  have scalar: "is_scalar (JNum 0)" by (simp add: is_scalar_def)
  have fragments:
    "sequence_sum (map (route_param ?go)
       (filter (\<lambda>p. \<not> nullish (snd p)) (for_in (JObj ?kvs)))) =
     Inr [''1=0'', ''2='', ''b=-5'', '''', ''k,x%20y'']"
    by code_simp
  have obj: "read_option ?go ''object'' = JObj [(''style'', JUndefined), (''explode'', JBool False)]"
    by code_simp
  have arr: "read_option ?go ''array'' = JUndefined"
    by code_simp
  have allow: "truthy (read_option ?go ''allowReserved'') = False"
    by code_simp
  have plain: "list_all (\<lambda>p. \<not> array_index (fst p)) [(''b'', JNum 1), (''a'', JNum 2)]"
    by code_simp
  have joined: "join_strings ''&'' [''1=0'', ''2='', ''b=-5'', '''', ''k,x%20y''] =
                ''1=0&2=&b=-5&&k,x%20y''"
    by simp
  have main: "createQuerySerializer ?go (JObj ?kvs) = Inr ''1=0&2=&b=-5&&k,x%20y''"
    using fragments joined
      createQuerySerializer_joins_all_fragments [where go = ?go and kvs = ?kvs]
    by simp
  have opts:
    "object_options ?go = \<lparr>style = JUndefined, explode = JBool False, allowReserved = JBool False\<rparr>"
    "array_options ?go = \<lparr>style = JStr ''form'', explode = JBool True, allowReserved = JBool False\<rparr>"
    using obj arr allow
      createQuerySerializer_joins_all_fragments
        [where go = ?go and oprops = "[(''style'', JUndefined), (''explode'', JBool False)]"]
    by simp_all
  have order: "for_in (JObj [(''b'', JNum 1), (''a'', JNum 2)]) = [(''b'', JNum 1), (''a'', JNum 2)]"
    using plain
      createQuerySerializer_joins_all_fragments [where kvs = "[(''b'', JNum 1), (''a'', JNum 2)]"]
    by blast
  show ?thesis using scalar obj main opts plain order by simp
qed

text \<open>
  The claim as the specification words it fails in two ways. On a mapping with an
  empty array between two scalars the code returns \<^verbatim>\<open>a=1&&c=2\<close>, where joining the
  non-empty fragments only would give \<^verbatim>\<open>a=1&c=2\<close>. On a mapping whose properties were
  inserted in the order \<^verbatim>\<open>b\<close>, \<^verbatim>\<open>2\<close>, \<^verbatim>\<open>1\<close> the code returns \<^verbatim>\<open>1=0&2=&b=-5\<close>, where
  the insertion order would give \<^verbatim>\<open>b=-5&2=&1=0\<close>.
\<close>

theorem createQuerySerializer_empty_fragment_counterexample:
  "createQuerySerializer JUndefined
     (JObj [(''a'', JNum 1), (''b'', JArr []), (''c'', JNum 2)]) = Inr ''a=1&&c=2'' \<and>
   spec_querySerializer JUndefined
     (JObj [(''a'', JNum 1), (''b'', JArr []), (''c'', JNum 2)]) = Inr ''a=1&c=2'' \<and>
   createQuerySerializer JUndefined
     (JObj [(''b'', JNum (-5)), (''2'', JStr ''''), (''1'', JNum 0)]) = Inr ''1=0&2=&b=-5'' \<and>
   spec_querySerializer JUndefined
     (JObj [(''b'', JNum (-5)), (''2'', JStr ''''), (''1'', JNum 0)]) = Inr ''b=-5&2=&1=0''"
  by code_simp

section \<open>The object encoder\<close>

lemma Array_join_element_text: "Array_join xs sep = join_strings sep (map element_text xs)"
  by (simp add: Array_join_def element_text_def [abs_def])

lemma object_flat_loop_append:
  "object_flat_loop opts kvs acc =
     acc @ concat (map (\<lambda>(k, v). [JStr k, if allowReserved opts = JBool True then v
                                            else JStr (encodeURIComponent v)]) kvs)"
  by (induction kvs arbitrary: acc) auto

lemma flat_element_texts:
  "list_all (\<lambda>p. \<not> nullish (snd p)) kvs \<Longrightarrow>
   map element_text
     (concat (map (\<lambda>(k, v). [JStr k, if allowReserved opts = JBool True then v
                                      else JStr (encodeURIComponent v)]) kvs)) =
   concat (map (\<lambda>p. [fst p, value_text opts (snd p)]) kvs)"
  by (induction kvs) (auto simp: element_text_def nullish_def value_text_def)

lemma serializeObjectParam_flat_entries:
  assumes "explode opts = JBool False" and "style opts \<noteq> JStr ''deepObject''"
    and "list_all (\<lambda>p. \<not> nullish (snd p)) kvs"
  shows "serializeObjectParam name (JObj kvs) opts =
           Inr (spec_wrap_flat name (style opts) (flat_object opts (for_in (JObj kvs))))"
proof -
  have "list_all (\<lambda>p. \<not> nullish (snd p)) (for_in (JObj kvs))"
    using assms(3) by (simp only: list_all_for_in)
  then have "Array_join (object_flat_loop opts (for_in (JObj kvs)) []) '','' =
             flat_object opts (for_in (JObj kvs))"
    using flat_element_texts [of "for_in (JObj kvs)" opts]
    by (simp only: Array_join_element_text object_flat_loop_append flat_object_def append_Nil)
  then show ?thesis using assms(1,2)
    by (simp add: serializeObjectParam_def spec_wrap_flat_def Let_def del: for_in.simps)
qed

lemma object_explode_loop_deep:
  "style opts = JStr ''deepObject'' \<Longrightarrow> list_all (\<lambda>p. is_scalar (snd p)) es \<Longrightarrow>
     object_explode_loop name opts es acc = Inr (acc @ map (deep_fragment name opts) es)"
proof (induction es arbitrary: acc)
  case Nil
  show ?case by simp
next
  case (Cons p es)
  obtain k v where p: "p = (k, v)" by (cases p)
  from Cons.prems(2) have scalar: "is_scalar v" and rest: "list_all (\<lambda>p. is_scalar (snd p)) es"
    by (simp_all add: p)
  from scalar have "serializePrimitiveParam (name @ ''['' @ k @ '']'') v (allowReserved opts) =
      Inr (deep_fragment name opts (k, v))"
    by (auto simp: serializePrimitiveParam_def deep_fragment_def value_text_def is_scalar_cases)
  then show ?case
    using Cons.IH [OF Cons.prems(1) rest, of "acc @ [deep_fragment name opts (k, v)]"]
      Cons.prems(1) p
    by simp
qed

lemma serializeObjectParam_deep_entries:
  assumes "style opts = JStr ''deepObject''" and "list_all (\<lambda>p. is_scalar (snd p)) kvs"
  shows "serializeObjectParam name (JObj kvs) opts =
           Inr (join_strings ''&'' (map (deep_fragment name opts) (for_in (JObj kvs))))"
proof -
  have "list_all (\<lambda>p. is_scalar (snd p)) (for_in (JObj kvs))"
    using assms(2) by (simp only: list_all_for_in)
  then have loop: "object_explode_loop name opts (for_in (JObj kvs)) [] =
      Inr (map (deep_fragment name opts) (for_in (JObj kvs)))"
    using object_explode_loop_deep [OF assms(1), of "for_in (JObj kvs)" name "[]"]
    by (simp only: append_Nil)
  have joiner: "explode_joiner (JStr ''deepObject'') = Inr ''&''"
    by code_simp
  show ?thesis
    using assms(1) loop
    by (simp add: serializeObjectParam_def joiner Let_def del: for_in.simps)
qed

text \<open>
  C2, as amended. For every mapping whose member values are neither \<^verbatim>\<open>null\<close> nor
  \<^verbatim>\<open>undefined\<close>, and every options with \<^verbatim>\<open>explode: false\<close> and a style other than
  deepObject, \<^verbatim>\<open>serializeObjectParam\<close> flattens the mapping into
  \<^verbatim>\<open>k1,v1,k2,v2,...\<close> in the order of \<^verbatim>\<open>for ... in\<close> (keys that are array indices
  first, in ascending numeric order, then the other keys in insertion order; so in
  insertion order when no key is an array index), values percent-encoded unless
  \<^verbatim>\<open>allowReserved\<close> is \<^verbatim>\<open>true\<close>, and wraps it: form gives \<^verbatim>\<open>name={flat}\<close>, label
  gives \<^verbatim>\<open>.{flat}\<close>, matrix gives \<^verbatim>\<open>;name={flat}\<close>, and every other style, simple,
  spaceDelimited and pipeDelimited among them, gives the bare flat string. With the
  style deepObject the option \<^verbatim>\<open>explode\<close> is not read: for scalar member values the
  result is the fragments \<^verbatim>\<open>name[k]=v\<close>, in the same order of the keys, joined with an
  ampersand.
\<close>

theorem serializeObjectParam_flat:
  "(explode opts = JBool False \<and> style opts \<noteq> JStr ''deepObject'' \<and>
    list_all (\<lambda>p. \<not> nullish (snd p)) kvs \<longrightarrow>
      serializeObjectParam name (JObj kvs) opts =
        Inr (spec_wrap_flat name (style opts) (flat_object opts (for_in (JObj kvs))))) \<and>
   (style opts = JStr ''deepObject'' \<and> list_all (\<lambda>p. is_scalar (snd p)) kvs \<longrightarrow>
      serializeObjectParam name (JObj kvs) opts =
        Inr (join_strings ''&''
               (map (\<lambda>p. name @ ''['' @ fst p @ '']='' @ value_text opts (snd p))
                  (for_in (JObj kvs))))) \<and>
   for_in (JObj kvs) =
     sort_key index_order (filter (\<lambda>p. array_index (fst p)) kvs)
       @ filter (\<lambda>p. \<not> array_index (fst p)) kvs \<and>
   (list_all (\<lambda>p. \<not> array_index (fst p)) kvs \<longrightarrow> for_in (JObj kvs) = kvs) \<and>
   spec_wrap_flat name (JStr ''form'') flat = name @ ''='' @ flat \<and>
   spec_wrap_flat name (JStr ''label'') flat = ''.'' @ flat \<and>
   spec_wrap_flat name (JStr ''matrix'') flat = '';'' @ name @ ''='' @ flat \<and>
   (st \<noteq> JStr ''form'' \<and> st \<noteq> JStr ''label'' \<and> st \<noteq> JStr ''matrix'' \<longrightarrow>
      spec_wrap_flat name st flat = flat) \<and>
   flat_object opts es =
     join_strings '','' (concat (map (\<lambda>p. [fst p, value_text opts (snd p)]) es)) \<and>
   value_text opts v =
     (if allowReserved opts = JBool True then ToString v else encodeURIComponent v)"
proof -
  have deep: "map (deep_fragment name opts) (for_in (JObj kvs)) =
      map (\<lambda>p. name @ ''['' @ fst p @ '']='' @ value_text opts (snd p)) (for_in (JObj kvs))"
    by (simp add: deep_fragment_def [abs_def] del: for_in.simps)
  have order: "for_in (JObj kvs) =
     sort_key index_order (filter (\<lambda>p. array_index (fst p)) kvs)
       @ filter (\<lambda>p. \<not> array_index (fst p)) kvs"
    by simp
  have wraps:
    "spec_wrap_flat name (JStr ''form'') flat = name @ ''='' @ flat"
    "spec_wrap_flat name (JStr ''label'') flat = ''.'' @ flat"
    "spec_wrap_flat name (JStr ''matrix'') flat = '';'' @ name @ ''='' @ flat"
    "st \<noteq> JStr ''form'' \<and> st \<noteq> JStr ''label'' \<and> st \<noteq> JStr ''matrix'' \<longrightarrow>
       spec_wrap_flat name st flat = flat"
    by (simp_all add: spec_wrap_flat_def)
  show ?thesis
    using serializeObjectParam_flat_entries [of opts kvs name]
      serializeObjectParam_deep_entries [of opts kvs name, unfolded deep]
      order for_in_no_index [of kvs] wraps
      flat_object_def [of opts es] value_text_def [of opts v]
    by blast
qed

theorem serializeObjectParam_flat_witness:
  "list_all (\<lambda>p. \<not> nullish (snd p)) [(''R'', JNum 100), (''2'', JStr ''a b''), (''1'', JBool True)] \<and>
   serializeObjectParam ''color''
     (JObj [(''R'', JNum 100), (''2'', JStr ''a b''), (''1'', JBool True)])
     \<lparr>style = JStr ''matrix'', explode = JBool False, allowReserved = JUndefined\<rparr> =
     Inr '';color=1,true,2,a%20b,R,100'' \<and>
   serializeObjectParam ''color''
     (JObj [(''R'', JNum 100), (''2'', JStr ''a b''), (''1'', JBool True)])
     \<lparr>style = JStr ''pipeDelimited'', explode = JBool False, allowReserved = JBool True\<rparr> =
     Inr ''1,true,2,a b,R,100'' \<and>
   list_all (\<lambda>p. is_scalar (snd p)) [(''R'', JNum 100), (''G'', JStr ''a b'')] \<and>
   serializeObjectParam ''color'' (JObj [(''R'', JNum 100), (''G'', JStr ''a b'')])
     \<lparr>style = JStr ''deepObject'', explode = JBool False, allowReserved = JUndefined\<rparr> =
     Inr ''color[R]=100&color[G]=a%20b''"
proof -
  let ?kvs = "[(''R'', JNum 100), (''2'', JStr ''a b''), (''1'', JBool True)]"
  let ?o1 = "\<lparr>style = JStr ''matrix'', explode = JBool False, allowReserved = JUndefined\<rparr>"
  let ?o2 = "\<lparr>style = JStr ''pipeDelimited'', explode = JBool False, allowReserved = JBool True\<rparr>"
  let ?kvs3 = "[(''R'', JNum 100), (''G'', JStr ''a b'')]"
  let ?o3 = "\<lparr>style = JStr ''deepObject'', explode = JBool False, allowReserved = JUndefined\<rparr>"
  have defined: "list_all (\<lambda>p. \<not> nullish (snd p)) ?kvs"
    by (simp add: nullish_def)
  have scalars: "list_all (\<lambda>p. is_scalar (snd p)) ?kvs3"
    by (simp add: is_scalar_def)
  have flat1: "spec_wrap_flat ''color'' (style ?o1) (flat_object ?o1 (for_in (JObj ?kvs))) =
               '';color=1,true,2,a%20b,R,100''"
    by code_simp
  have flat2: "spec_wrap_flat ''color'' (style ?o2) (flat_object ?o2 (for_in (JObj ?kvs))) =
               ''1,true,2,a b,R,100''"
    by code_simp
  have deep: "join_strings ''&''
                (map (\<lambda>p. ''color'' @ ''['' @ fst p @ '']='' @ value_text ?o3 (snd p))
                   (for_in (JObj ?kvs3))) = ''color[R]=100&color[G]=a%20b''"
    by code_simp
  have r1: "serializeObjectParam ''color'' (JObj ?kvs) ?o1 = Inr '';color=1,true,2,a%20b,R,100''"
    using defined flat1
      serializeObjectParam_flat [where opts = ?o1 and kvs = ?kvs and name = "''color''"]
    by simp
  have r2: "serializeObjectParam ''color'' (JObj ?kvs) ?o2 = Inr ''1,true,2,a b,R,100''"
    using defined flat2
      serializeObjectParam_flat [where opts = ?o2 and kvs = ?kvs and name = "''color''"]
    by simp
  have r3: "serializeObjectParam ''color'' (JObj ?kvs3) ?o3 = Inr ''color[R]=100&color[G]=a%20b''"
    using scalars deep
      serializeObjectParam_flat [where opts = ?o3 and kvs = ?kvs3 and name = "''color''"]
    by simp
  show ?thesis using defined scalars r1 r2 r3 by simp
qed

text \<open>
  The claim as the specification words it fails in two ways. For the style deepObject
  with \<^verbatim>\<open>explode: false\<close> the code returns \<^verbatim>\<open>color[R]=100\<close>, not the bare flat string
  \<^verbatim>\<open>R,100\<close>. For a mapping whose keys were inserted in the order \<^verbatim>\<open>b\<close>, \<^verbatim>\<open>2\<close>,
  \<^verbatim>\<open>1\<close> the code returns \<^verbatim>\<open>color=1,3,2,2,b,1\<close>, where the insertion order would give
  \<^verbatim>\<open>color=b,1,2,2,1,3\<close>.
\<close>

theorem serializeObjectParam_flat_deepObject_counterexample:
  "serializeObjectParam ''color'' (JObj [(''R'', JNum 100)])
     \<lparr>style = JStr ''deepObject'', explode = JBool False, allowReserved = JUndefined\<rparr> =
     Inr ''color[R]=100'' \<and>
   spec_serializeObjectParam_flat ''color'' [(''R'', JNum 100)]
     \<lparr>style = JStr ''deepObject'', explode = JBool False, allowReserved = JUndefined\<rparr> =
     ''R,100'' \<and>
   serializeObjectParam ''color'' (JObj [(''b'', JNum 1), (''2'', JNum 2), (''1'', JNum 3)])
     \<lparr>style = JStr ''form'', explode = JBool False, allowReserved = JUndefined\<rparr> =
     Inr ''color=1,3,2,2,b,1'' \<and>
   spec_serializeObjectParam_flat ''color'' [(''b'', JNum 1), (''2'', JNum 2), (''1'', JNum 3)]
     \<lparr>style = JStr ''form'', explode = JBool False, allowReserved = JUndefined\<rparr> =
     ''color=b,1,2,2,1,3''"
  by code_simp

section \<open>Null and undefined members\<close>

text \<open>
  C5. A member of an object parameter or an element of an array parameter that is
  \<^verbatim>\<open>null\<close> or \<^verbatim>\<open>undefined\<close> is not omitted by every branch of the encoders: without
  explode (and, for arrays of style simple or label, with explode too) the value goes
  through \<^verbatim>\<open>encodeURIComponent\<close>, which prints it as the text \<^verbatim>\<open>null\<close> or
  \<^verbatim>\<open>undefined\<close>. The query serializer hands such a text on. (Where an element goes
  through \<^verbatim>\<open>serializePrimitiveParam\<close> instead, as in the last line below, it is
  dropped and leaves an empty fragment between two separators.)
\<close>

theorem nullish_member_is_printed:
  "serializeObjectParam ''color'' (JObj [(''R'', JNull)])
     \<lparr>style = JStr ''form'', explode = JBool False, allowReserved = JUndefined\<rparr> =
     Inr ''color=R,null'' \<and>
   serializeObjectParam ''color'' (JObj [(''R'', JUndefined)])
     \<lparr>style = JStr ''form'', explode = JBool False, allowReserved = JUndefined\<rparr> =
     Inr ''color=R,undefined'' \<and>
   serializeArrayParam ''id'' (JArr [JNum 1, JNull])
     \<lparr>style = JStr ''simple'', explode = JBool False, allowReserved = JUndefined\<rparr> =
     Inr ''1,null'' \<and>
   serializeArrayParam ''id'' (JArr [JNum 1, JNull])
     \<lparr>style = JStr ''simple'', explode = JBool True, allowReserved = JUndefined\<rparr> =
     Inr ''1,null'' \<and>
   createQuerySerializer
     (JObj [(''array'', JObj [(''style'', JStr ''form''), (''explode'', JBool False)])])
     (JObj [(''id'', JArr [JNum 1, JNull])]) = Inr ''id=1,null'' \<and>
   serializeArrayParam ''id'' (JArr [JNum 1, JNull, JNum 2])
     \<lparr>style = JStr ''form'', explode = JBool True, allowReserved = JUndefined\<rparr> =
     Inr ''id=1&&id=2''"
  by code_simp

theorem nullish_member_is_printed_witness:
  "serializeObjectParam ''color'' (JObj [(''R'', JNull)])
     \<lparr>style = JStr ''form'', explode = JBool False, allowReserved = JUndefined\<rparr> =
     Inr ''color=R,null''"
  using nullish_member_is_printed by (rule conjunct1)

section \<open>Templates without a placeholder\<close>

lemma match_PATH_PARAM_RE_no_brace:
  "CHR ''{'' \<notin> set s \<Longrightarrow> match_PATH_PARAM_RE s = []"
  by (induction s) auto

lemma defaultPathSerializer_no_placeholder:
  "match_PATH_PARAM_RE pathname = [] \<Longrightarrow>
     defaultPathSerializer pathname pathParams = Inr JUndefined"
  by (simp add: defaultPathSerializer_def)

lemma defaultPathSerializer_no_brace:
  "CHR ''{'' \<notin> set pathname \<Longrightarrow> defaultPathSerializer pathname pathParams = Inr JUndefined"
  by (simp add: defaultPathSerializer_no_placeholder match_PATH_PARAM_RE_no_brace)

text \<open>
  C3. For a template without a placeholder \<^verbatim>\<open>defaultPathSerializer\<close> returns
  \<^verbatim>\<open>undefined\<close> (the lemmas above). \<^verbatim>\<open>createFinalURL\<close> assigns that result to
  \<^verbatim>\<open>finalURL\<close> whenever path parameters are supplied, so the final URL is then
  \<^verbatim>\<open>undefined\<close>, or the text \<^verbatim>\<open>undefined\<close> followed by the query, and not the base
  URL followed by the template; it is the expected URL only when no path parameters
  are supplied.
\<close>

theorem createFinalURL_undefined_without_placeholder:
  "defaultPathSerializer ''https://x/ping'' (Some [(''id'', JNum 1)]) = Inr JUndefined \<and>
   createFinalURL ''/ping''
     \<lparr>baseUrl = ''https://x'',
      params = Some \<lparr>path = Some [(''id'', JNum 1)], query = None, header = ()\<rparr>,
      querySerializer = createQuerySerializer JUndefined\<rparr> = Inr JUndefined \<and>
   createFinalURL ''/ping''
     \<lparr>baseUrl = ''https://x'',
      params = Some \<lparr>path = Some [(''id'', JNum 1)],
                      query = Some (JObj [(''a'', JNum 1)]), header = ()\<rparr>,
      querySerializer = createQuerySerializer JUndefined\<rparr> = Inr (JStr ''undefined?a=1'') \<and>
   createFinalURL ''/ping''
     \<lparr>baseUrl = ''https://x'',
      params = Some \<lparr>path = None, query = Some (JObj [(''a'', JNum 1)]), header = ()\<rparr>,
      querySerializer = createQuerySerializer JUndefined\<rparr> = Inr (JStr ''https://x/ping?a=1'')"
  by code_simp

section \<open>mergeHeaders\<close>















section \<open>Response handling\<close>

lemma coreFetch_handles_response:
  "build_request P c url fo = Inr req \<Longrightarrow> sent_to c fo req = Inr r \<Longrightarrow>
     coreFetch P c url fo =
       handle_response P (case fetch_parseAs fo of None \<Rightarrow> AsJson | Some p \<Rightarrow> p) r"
  by (simp add: coreFetch_def sent_to_def)

text \<open>
  C7. For every transport response whose status is 204 or whose \<^verbatim>\<open>Content-Length\<close>
  header is exactly \<^verbatim>\<open>"0"\<close>, \<^verbatim>\<open>coreFetch\<close> returns the empty object without reading
  the body: \<^verbatim>\<open>{data: {}, response}\<close> when \<^verbatim>\<open>response.ok\<close> is true and
  \<^verbatim>\<open>{error: {}, response}\<close> when it is false, whatever the body, the parser and
  \<^verbatim>\<open>parseAs\<close> are.
\<close>

theorem coreFetch_empty_content:
  "(build_request P c url fo = Inr req \<and> sent_to c fo req = Inr r \<and> empty_content r \<longrightarrow>
      coreFetch P c url fo =
        Inr (if ok r then Success (Value (JObj [])) r else Failure (Value (JObj [])) r)) \<and>
   (empty_content r \<longrightarrow>
      handle_response P parse_as r =
        Inr (if ok r then Success (Value (JObj [])) r else Failure (Value (JObj [])) r))"
proof -
  have direct: "handle_response P' pa r =
      Inr (if ok r then Success (Value (JObj [])) r else Failure (Value (JObj [])) r)"
    if "empty_content r" for P' pa
    using that by (simp add: handle_response_def empty_content_def)
  then show ?thesis using coreFetch_handles_response [of P c url fo req r] by auto
qed

theorem coreFetch_empty_content_witness:
  "empty_content \<lparr>ok = True, status = 204, response_headers = [], body = Some ''ignored''\<rparr> \<and>
   coreFetch
     \<lparr>JSON_stringify = (\<lambda>v. JStr ''{}''),
      JSON_parse = (\<lambda>s. if s = ''{}'' then Some (JObj []) else None)\<rparr>
     \<lparr>client_fetch =
        (\<lambda>req. Inr \<lparr>ok = True, status = 204, response_headers = [], body = Some ''ignored''\<rparr>),
      client_querySerializer = QS_Value JUndefined, client_bodySerializer = None,
      client_baseUrl = Some ''https://x/'', client_headers = Plain JUndefined,
      client_body = None,
      client_init = Map.empty\<rparr>
     ''/ping''
     \<lparr>fetch_fetch = None, fetch_headers = Plain JUndefined, fetch_body = JUndefined,
      fetch_params = None, fetch_parseAs = None, fetch_querySerializer = QS_Value JUndefined,
      fetch_bodySerializer = None, fetch_init = Map.empty\<rparr> =
   Inr (Success (Value (JObj []))
          \<lparr>ok = True, status = 204, response_headers = [], body = Some ''ignored''\<rparr>)"
proof -
  let ?r = "\<lparr>ok = True, status = 204, response_headers = [], body = Some ''ignored''\<rparr>"
  let ?P = "\<lparr>JSON_stringify = (\<lambda>v. JStr ''{}''),
             JSON_parse = (\<lambda>s. if s = ''{}'' then Some (JObj []) else None)\<rparr>"
  let ?c = "\<lparr>client_fetch = (\<lambda>req. Inr ?r),
             client_querySerializer = QS_Value JUndefined, client_bodySerializer = None,
             client_baseUrl = Some ''https://x/'', client_headers = Plain JUndefined,
      client_body = None,
             client_init = Map.empty\<rparr>"
  let ?fo = "\<lparr>fetch_fetch = None, fetch_headers = Plain JUndefined, fetch_body = JUndefined,
              fetch_params = None, fetch_parseAs = None, fetch_querySerializer = QS_Value JUndefined,
              fetch_bodySerializer = None, fetch_init = Map.empty\<rparr>"
  have url: "request_finalURL ?c ''/ping'' ?fo = Inr (JStr ''https://x/ping'')"
    by code_simp
  have hs: "mergeHeaders [Plain DEFAULT_HEADERS, Plain JUndefined, Plain JUndefined,
                          Plain JUndefined] = Inr [(''content-type'', ''application/json'')]"
    by code_simp
  have "\<exists>req. build_request ?P ?c ''/ping'' ?fo = Inr req"
    by (simp add: build_request_def url hs)
  then obtain req where built: "build_request ?P ?c ''/ping'' ?fo = Inr req" ..
  have sent: "sent_to ?c ?fo req = Inr ?r" by (simp add: sent_to_def)
  have empty: "empty_content ?r" by (simp add: empty_content_def)
  show ?thesis
    using built sent empty coreFetch_empty_content [of ?P ?c "''/ping''" ?fo req ?r]
    by simp
qed

text \<open>
  C8. For every response that is not ok and not of empty content, \<^verbatim>\<open>coreFetch\<close>
  parses the body as JSON and, if that fails, takes the body text instead; either way
  it returns \<^verbatim>\<open>{error, response}\<close> and does not throw. So a response that is not ok
  and whose body is not JSON gives an \<^verbatim>\<open>error\<close> equal to the body text.
\<close>

theorem coreFetch_error_body:
  "build_request P c url fo = Inr req \<and> sent_to c fo req = Inr r \<and>
   \<not> ok r \<and> \<not> empty_content r \<longrightarrow>
     coreFetch P c url fo =
       Inr (Failure (Value (case JSON_parse P (Response_text r) of
                              Some v \<Rightarrow> v
                            | None \<Rightarrow> JStr (Response_text r))) r)"
proof -
  have "handle_response P pa r =
      Inr (Failure (Value (case JSON_parse P (Response_text r) of
                             Some v \<Rightarrow> v
                           | None \<Rightarrow> JStr (Response_text r))) r)"
    if "\<not> ok r" "\<not> empty_content r" for pa
    using that
    by (simp add: handle_response_def empty_content_def Response_json_def split: option.splits)
  then show ?thesis using coreFetch_handles_response [of P c url fo req r] by auto
qed

theorem coreFetch_error_body_witness:
  "\<not> empty_content \<lparr>ok = False, status = 500, response_headers = [], body = Some ''oops''\<rparr> \<and>
   coreFetch
     \<lparr>JSON_stringify = (\<lambda>v. JStr ''{}''),
      JSON_parse = (\<lambda>s. if s = ''{}'' then Some (JObj []) else None)\<rparr>
     \<lparr>client_fetch =
        (\<lambda>req. Inr \<lparr>ok = False, status = 500, response_headers = [], body = Some ''oops''\<rparr>),
      client_querySerializer = QS_Value JUndefined, client_bodySerializer = None,
      client_baseUrl = Some ''https://x/'', client_headers = Plain JUndefined,
      client_body = None,
      client_init = Map.empty\<rparr>
     ''/ping''
     \<lparr>fetch_fetch = None, fetch_headers = Plain JUndefined, fetch_body = JUndefined,
      fetch_params = None, fetch_parseAs = None, fetch_querySerializer = QS_Value JUndefined,
      fetch_bodySerializer = None, fetch_init = Map.empty\<rparr> =
   Inr (Failure (Value (JStr ''oops''))
          \<lparr>ok = False, status = 500, response_headers = [], body = Some ''oops''\<rparr>)"
proof -
  let ?r = "\<lparr>ok = False, status = 500, response_headers = [], body = Some ''oops''\<rparr>"
  let ?P = "\<lparr>JSON_stringify = (\<lambda>v. JStr ''{}''),
             JSON_parse = (\<lambda>s. if s = ''{}'' then Some (JObj []) else None)\<rparr>"
  let ?c = "\<lparr>client_fetch = (\<lambda>req. Inr ?r),
             client_querySerializer = QS_Value JUndefined, client_bodySerializer = None,
             client_baseUrl = Some ''https://x/'', client_headers = Plain JUndefined,
      client_body = None,
             client_init = Map.empty\<rparr>"
  let ?fo = "\<lparr>fetch_fetch = None, fetch_headers = Plain JUndefined, fetch_body = JUndefined,
              fetch_params = None, fetch_parseAs = None, fetch_querySerializer = QS_Value JUndefined,
              fetch_bodySerializer = None, fetch_init = Map.empty\<rparr>"
  have url: "request_finalURL ?c ''/ping'' ?fo = Inr (JStr ''https://x/ping'')"
    by code_simp
  have hs: "mergeHeaders [Plain DEFAULT_HEADERS, Plain JUndefined, Plain JUndefined,
                          Plain JUndefined] = Inr [(''content-type'', ''application/json'')]"
    by code_simp
  have "\<exists>req. build_request ?P ?c ''/ping'' ?fo = Inr req"
    by (simp add: build_request_def url hs)
  then obtain req where built: "build_request ?P ?c ''/ping'' ?fo = Inr req" ..
  have sent: "sent_to ?c ?fo req = Inr ?r" by (simp add: sent_to_def)
  have full: "\<not> empty_content ?r" by (simp add: empty_content_def Headers_get_def)
  have body_text: "Response_text ?r = ''oops''" by (simp add: Response_text_def)
  show ?thesis
    using built sent full body_text coreFetch_error_body [of ?P ?c "''/ping''" ?fo req ?r]
    by simp
qed

section \<open>The final URL\<close>

lemma strip_no_leading_question: "\<not> startsWith (strip_LEADING_QUESTION_RE s) ''?''"
proof -
  define d where "d = dropWhile (\<lambda>c. c = CHR ''?'') s"
  have "d = [] \<or> hd d \<noteq> CHR ''?''"
    unfolding d_def using hd_dropWhile [of "\<lambda>c. c = CHR ''?''" s] by blast
  then have "\<not> prefix ''?'' d" by (cases d) auto
  then show ?thesis by (simp add: startsWith_def strip_LEADING_QUESTION_RE_def d_def)
qed

lemma takeWhile_question:
  "takeWhile (\<lambda>c. c = CHR ''?'') s = replicate (length (takeWhile (\<lambda>c. c = CHR ''?'') s)) CHR ''?''"
  by (induction s) auto

lemma strip_only_leading:
  "s = replicate (length s - length (strip_LEADING_QUESTION_RE s)) CHR ''?''
         @ strip_LEADING_QUESTION_RE s"
proof -
  let ?t = "takeWhile (\<lambda>c. c = CHR ''?'') s"
  let ?d = "dropWhile (\<lambda>c. c = CHR ''?'') s"
  have split: "s = ?t @ ?d" by simp
  then have "length s = length ?t + length ?d"
    by (metis length_append)
  then have "length s - length ?d = length ?t" by simp
  then show ?thesis
    using split takeWhile_question [of s]
    by (simp add: strip_LEADING_QUESTION_RE_def)
qed

lemma createFinalURL_no_path:
  assumes "params opts = Some ps" and "path ps = None"
    and "querySerializer opts (query_of ps) = Inr s"
  shows "createFinalURL pathname opts = Inr (JStr (baseUrl opts @ pathname @ query_suffix s))"
  using assms by (simp add: createFinalURL_def query_of_def query_suffix_def Let_def)

lemma createFinalURL_path:
  assumes "params opts = Some ps" and "path ps = Some pathParams"
    and "defaultPathSerializer (baseUrl opts @ pathname) (Some pathParams) = Inr u"
    and "querySerializer opts (query_of ps) = Inr s"
  shows "createFinalURL pathname opts =
           Inr (if strip_LEADING_QUESTION_RE s = [] then u
                else JStr (ToString u @ ''?'' @ strip_LEADING_QUESTION_RE s))"
  using assms by (simp add: createFinalURL_def query_of_def Let_def)

lemma createFinalURL_concat:
  "createFinalURL pathname opts =
     createFinalURL (baseUrl opts @ pathname) (opts\<lparr>baseUrl := []\<rparr>)"
  by (simp add: createFinalURL_def Let_def split: sum.splits option.splits)

lemma count_question:
  "count_list (a @ query_suffix s) CHR ''?'' =
     count_list a CHR ''?'' + count_list (strip_LEADING_QUESTION_RE s) CHR ''?''
       + (if strip_LEADING_QUESTION_RE s = [] then 0 else 1)"
  by (simp add: query_suffix_def)

section \<open>The base URL\<close>

lemma client_base_strips: "client_base (c\<lparr>client_baseUrl := Some (b @ ''/'')\<rparr>) = b"
  by (simp add: client_base_def endsWith_def)

lemma client_base_keeps:
  "\<not> endsWith b ''/'' \<Longrightarrow> client_base (c\<lparr>client_baseUrl := Some b\<rparr>) = b"
  by (simp add: client_base_def)

lemma client_base_none: "client_base (c\<lparr>client_baseUrl := None\<rparr>) = []"
  by (simp add: client_base_def endsWith_def)

lemma request_finalURL_options:
  "request_finalURL c url fo =
     createFinalURL url
       \<lparr> baseUrl = client_base c, params = Some (params_of fo),
         querySerializer = resolve_querySerializer (client_querySerializer c)
                             (fetch_querySerializer fo) \<rparr>"
  by (simp add: request_finalURL_def params_of_def)

lemma request_finalURL_trailing_slash:
  assumes "\<not> endsWith b ''/''"
  shows "request_finalURL (c\<lparr>client_baseUrl := Some (b @ ''/'')\<rparr>) url fo =
         request_finalURL (c\<lparr>client_baseUrl := Some b\<rparr>) url fo"
  by (simp add: request_finalURL_options client_base_strips client_base_keeps [OF assms])

lemma request_finalURL_concat:
  "request_finalURL c url fo =
     createFinalURL (client_base c @ url)
       \<lparr> baseUrl = [], params = Some (params_of fo),
         querySerializer = resolve_querySerializer (client_querySerializer c)
                             (fetch_querySerializer fo) \<rparr>"
  unfolding request_finalURL_options
  by (simp add: createFinalURL_concat
      [of url "\<lparr> baseUrl = client_base c, params = Some (params_of fo),
                  querySerializer = resolve_querySerializer (client_querySerializer c)
                                      (fetch_querySerializer fo) \<rparr>"])

lemma request_finalURL_no_path:
  assumes "path (params_of fo) = None"
    and "resolve_querySerializer (client_querySerializer c) (fetch_querySerializer fo)
           (query_of (params_of fo)) = Inr s"
  shows "request_finalURL c url fo = Inr (JStr (client_base c @ url @ query_suffix s))"
  unfolding request_finalURL_options
  using assms by (simp add: createFinalURL_no_path [where ps = "params_of fo"])

lemma request_finalURL_path:
  assumes "path (params_of fo) = Some pathParams"
    and "defaultPathSerializer (client_base c @ url) (Some pathParams) = Inr u"
    and "resolve_querySerializer (client_querySerializer c) (fetch_querySerializer fo)
           (query_of (params_of fo)) = Inr s"
  shows "request_finalURL c url fo =
           Inr (if strip_LEADING_QUESTION_RE s = [] then u
                else JStr (ToString u @ ''?'' @ strip_LEADING_QUESTION_RE s))"
  unfolding request_finalURL_options
  using assms
  by (simp add: createFinalURL_path [where ps = "params_of fo" and pathParams = pathParams and u = u])

lemma build_request_url:
  "build_request P c url fo = Inr req \<Longrightarrow> request_finalURL c url fo = Inr (request_url req)"
  by (auto simp: build_request_def Let_def split: sum.splits)

text \<open>
  C9. \<^verbatim>\<open>createClient\<close> removes exactly one trailing slash from the configured
  \<^verbatim>\<open>baseUrl\<close> and leaves a \<^verbatim>\<open>baseUrl\<close> without a trailing slash unchanged (an absent
  one is the empty string). The result is prepended to the pathname of every request:
  the final URL is built from the concatenation of the two, which is followed by the
  query when there are no path parameters and is what the path serializer works on when
  there are, and it is the URL handed to the transport. So a client created with
  \<^verbatim>\<open>https://x/\<close> and one created with \<^verbatim>\<open>https://x\<close> build the same final URL for
  every request.
\<close>

theorem client_base_trailing_slash:
  "client_base (c\<lparr>client_baseUrl := Some (b @ ''/'')\<rparr>) = b \<and>
   client_base (c\<lparr>client_baseUrl := None\<rparr>) = [] \<and>
   (\<not> endsWith b ''/'' \<longrightarrow>
      client_base (c\<lparr>client_baseUrl := Some b\<rparr>) = b \<and>
      request_finalURL (c\<lparr>client_baseUrl := Some (b @ ''/'')\<rparr>) url fo =
        request_finalURL (c\<lparr>client_baseUrl := Some b\<rparr>) url fo) \<and>
   request_finalURL c url fo =
     createFinalURL (client_base c @ url)
       \<lparr> baseUrl = [], params = Some (params_of fo),
         querySerializer = resolve_querySerializer (client_querySerializer c)
                             (fetch_querySerializer fo) \<rparr> \<and>
   (path (params_of fo) = None \<and>
    resolve_querySerializer (client_querySerializer c) (fetch_querySerializer fo)
      (query_of (params_of fo)) = Inr s \<longrightarrow>
      request_finalURL c url fo = Inr (JStr (client_base c @ url @ query_suffix s))) \<and>
   (path (params_of fo) = Some pathParams \<and>
    defaultPathSerializer (client_base c @ url) (Some pathParams) = Inr u \<and>
    resolve_querySerializer (client_querySerializer c) (fetch_querySerializer fo)
      (query_of (params_of fo)) = Inr s \<longrightarrow>
      request_finalURL c url fo =
        Inr (if strip_LEADING_QUESTION_RE s = [] then u
             else JStr (ToString u @ ''?'' @ strip_LEADING_QUESTION_RE s))) \<and>
   (build_request P c url fo = Inr req \<longrightarrow>
      request_finalURL c url fo = Inr (request_url req))"
  using client_base_strips [where c = c and b = b] client_base_keeps [where c = c and b = b]
    client_base_none [where c = c]
    request_finalURL_trailing_slash [where c = c and b = b and url = url and fo = fo]
    request_finalURL_concat [where c = c and url = url and fo = fo]
    request_finalURL_no_path [where c = c and url = url and fo = fo and s = s]
    request_finalURL_path
      [where c = c and url = url and fo = fo and s = s and u = u and pathParams = pathParams]
    build_request_url [where c = c and url = url and fo = fo and P = P and req = req]
  by blast

theorem client_base_trailing_slash_witness:
  "\<not> endsWith ''https://x'' ''/'' \<and>
   request_finalURL
     \<lparr>client_fetch = (\<lambda>req. Inl (TransportFailure ''offline'')),
      client_querySerializer = QS_Value JUndefined, client_bodySerializer = None,
      client_baseUrl = Some ''https://x/'', client_headers = Plain JUndefined,
      client_body = None, client_init = Map.empty\<rparr>
     ''/ping''
     \<lparr>fetch_fetch = None, fetch_headers = Plain JUndefined, fetch_body = JUndefined,
      fetch_params = Some \<lparr>path = None, query = Some (JObj [(''a'', JNum 1)]),
                           header = Plain JUndefined\<rparr>,
      fetch_parseAs = None, fetch_querySerializer = QS_Value JUndefined,
      fetch_bodySerializer = None, fetch_init = Map.empty\<rparr> =
     Inr (JStr ''https://x/ping?a=1'') \<and>
   request_finalURL
     \<lparr>client_fetch = (\<lambda>req. Inl (TransportFailure ''offline'')),
      client_querySerializer = QS_Value JUndefined, client_bodySerializer = None,
      client_baseUrl = Some ''https://x'', client_headers = Plain JUndefined,
      client_body = None, client_init = Map.empty\<rparr>
     ''/ping''
     \<lparr>fetch_fetch = None, fetch_headers = Plain JUndefined, fetch_body = JUndefined,
      fetch_params = Some \<lparr>path = None, query = Some (JObj [(''a'', JNum 1)]),
                           header = Plain JUndefined\<rparr>,
      fetch_parseAs = None, fetch_querySerializer = QS_Value JUndefined,
      fetch_bodySerializer = None, fetch_init = Map.empty\<rparr> =
     Inr (JStr ''https://x/ping?a=1'') \<and>
   client_base
     \<lparr>client_fetch = (\<lambda>req. Inl (TransportFailure ''offline'')),
      client_querySerializer = QS_Value JUndefined, client_bodySerializer = None,
      client_baseUrl = Some ''https://x/'', client_headers = Plain JUndefined,
      client_body = None, client_init = Map.empty\<rparr> = ''https://x'' \<and>
   client_base
     \<lparr>client_fetch = (\<lambda>req. Inl (TransportFailure ''offline'')),
      client_querySerializer = QS_Value JUndefined, client_bodySerializer = None,
      client_baseUrl = Some ''https://x//'', client_headers = Plain JUndefined,
      client_body = None, client_init = Map.empty\<rparr> = ''https://x/''"
proof -
  let ?c = "\<lparr>client_fetch = (\<lambda>req. Inl (TransportFailure ''offline'')),
             client_querySerializer = QS_Value JUndefined, client_bodySerializer = None,
             client_baseUrl = Some ''https://x/'', client_headers = Plain JUndefined,
             client_body = None, client_init = Map.empty\<rparr>"
  let ?d = "\<lparr>client_fetch = (\<lambda>req. Inl (TransportFailure ''offline'')),
             client_querySerializer = QS_Value JUndefined, client_bodySerializer = None,
             client_baseUrl = Some ''https://x'', client_headers = Plain JUndefined,
             client_body = None, client_init = Map.empty\<rparr>"
  let ?fo = "\<lparr>fetch_fetch = None, fetch_headers = Plain JUndefined, fetch_body = JUndefined,
              fetch_params = Some \<lparr>path = None, query = Some (JObj [(''a'', JNum 1)]),
                                   header = Plain JUndefined\<rparr>,
              fetch_parseAs = None, fetch_querySerializer = QS_Value JUndefined,
              fetch_bodySerializer = None, fetch_init = Map.empty\<rparr>"
  have no_slash: "\<not> endsWith ''https://x'' ''/''" by code_simp
  have no_path: "path (params_of ?fo) = None" by (simp add: params_of_def)
  have query: "resolve_querySerializer (QS_Value JUndefined) (QS_Value JUndefined)
                 (query_of (params_of ?fo)) = Inr ''a=1''"
    by code_simp
  have suffix: "query_suffix ''a=1'' = ''?a=1''" by code_simp
  have inst:
    "client_base (?c\<lparr>client_baseUrl := Some (''https://x'' @ ''/'')\<rparr>) = ''https://x''"
    "client_base ?d = ''https://x''"
    "request_finalURL (?c\<lparr>client_baseUrl := Some (''https://x'' @ ''/'')\<rparr>) ''/ping'' ?fo =
       request_finalURL ?d ''/ping'' ?fo"
    using no_slash
      client_base_trailing_slash
        [where c = ?c and b = "''https://x''" and url = "''/ping''" and fo = ?fo]
    by simp_all
  have "path (params_of ?fo) = None \<and>
        resolve_querySerializer (client_querySerializer ?d) (fetch_querySerializer ?fo)
          (query_of (params_of ?fo)) = Inr ''a=1''"
    using no_path query by simp
  then have "request_finalURL ?d ''/ping'' ?fo =
               Inr (JStr (client_base ?d @ ''/ping'' @ query_suffix ''a=1''))"
    using client_base_trailing_slash
        [where c = ?d and url = "''/ping''" and fo = ?fo and s = "''a=1''"]
    by blast
  then have url: "request_finalURL ?d ''/ping'' ?fo = Inr (JStr ''https://x/ping?a=1'')"
    using suffix inst(2) by simp
  have twice: "client_base (?c\<lparr>client_baseUrl := Some (''https://x/'' @ ''/'')\<rparr>) = ''https://x/''"
    using client_base_trailing_slash [where c = ?c and b = "''https://x/''"] by blast
  show ?thesis using no_slash inst url twice by simp
qed

section \<open>The query separator\<close>

text \<open>
  C10, as amended. \<^verbatim>\<open>createFinalURL\<close> strips every leading question mark, and
  nothing else, from the text that the query serializer returns. When the stripped
  text is empty (the output was empty, or question marks only) nothing is appended to
  the URL; otherwise exactly one question mark is put between the URL and the stripped
  text, which does not begin with a question mark itself. So the final URL holds one
  question mark more than the URL before the query and the stripped text hold together;
  question marks inside either of them are kept.
\<close>

theorem createFinalURL_query_separator:
  "(params opts = Some ps \<and> path ps = None \<and> querySerializer opts (query_of ps) = Inr s \<longrightarrow>
      createFinalURL pathname opts = Inr (JStr (baseUrl opts @ pathname @ query_suffix s)) \<and>
      count_list (baseUrl opts @ pathname @ query_suffix s) CHR ''?'' =
        count_list (baseUrl opts @ pathname) CHR ''?''
          + count_list (strip_LEADING_QUESTION_RE s) CHR ''?''
          + (if strip_LEADING_QUESTION_RE s = [] then 0 else 1)) \<and>
   (params opts = Some ps \<and> path ps = Some pathParams \<and>
    defaultPathSerializer (baseUrl opts @ pathname) (Some pathParams) = Inr u \<and>
    querySerializer opts (query_of ps) = Inr s \<longrightarrow>
      createFinalURL pathname opts =
        Inr (if strip_LEADING_QUESTION_RE s = [] then u
             else JStr (ToString u @ ''?'' @ strip_LEADING_QUESTION_RE s))) \<and>
   query_suffix s =
     (if strip_LEADING_QUESTION_RE s = [] then [] else ''?'' @ strip_LEADING_QUESTION_RE s) \<and>
   s = replicate (length s - length (strip_LEADING_QUESTION_RE s)) CHR ''?''
         @ strip_LEADING_QUESTION_RE s \<and>
   \<not> startsWith (strip_LEADING_QUESTION_RE s) ''?''"
proof -
  have "count_list (baseUrl opts @ pathname @ query_suffix s) CHR ''?'' =
        count_list (baseUrl opts @ pathname) CHR ''?''
          + count_list (strip_LEADING_QUESTION_RE s) CHR ''?''
          + (if strip_LEADING_QUESTION_RE s = [] then 0 else 1)"
    using count_question [of "baseUrl opts @ pathname" s] by simp
  then show ?thesis
    using createFinalURL_no_path [of opts ps s pathname]
      createFinalURL_path [of opts ps pathParams pathname u s]
      query_suffix_def [of s] strip_only_leading [of s] strip_no_leading_question [of s]
    by blast
qed

theorem createFinalURL_query_separator_witness:
  "createFinalURL ''/ping''
     \<lparr>baseUrl = ''https://x'',
      params = Some \<lparr>path = None, query = None, header = ()\<rparr>,
      querySerializer = (\<lambda>q. Inr ''??a=1?b'')\<rparr> = Inr (JStr ''https://x/ping?a=1?b'') \<and>
   createFinalURL ''/ping''
     \<lparr>baseUrl = ''https://x'',
      params = Some \<lparr>path = None, query = None, header = ()\<rparr>,
      querySerializer = (\<lambda>q. Inr ''??'')\<rparr> = Inr (JStr ''https://x/ping'') \<and>
   strip_LEADING_QUESTION_RE ''??a=1?b'' = ''a=1?b'' \<and>
   createFinalURL ''/users/{id}''
     \<lparr>baseUrl = ''https://x'',
      params = Some \<lparr>path = Some [(''id'', JNum 7)], query = None, header = ()\<rparr>,
      querySerializer = (\<lambda>q. Inr ''?a=1'')\<rparr> = Inr (JStr ''https://x/users/7?a=1'')"
proof -
  let ?ps = "\<lparr>path = None, query = None, header = ()\<rparr>"
  let ?pp = "\<lparr>path = Some [(''id'', JNum 7)], query = None, header = ()\<rparr>"
  let ?o1 = "\<lparr>baseUrl = ''https://x'', params = Some ?ps,
              querySerializer = (\<lambda>q. Inr ''??a=1?b'')\<rparr>"
  let ?o2 = "\<lparr>baseUrl = ''https://x'', params = Some ?ps, querySerializer = (\<lambda>q. Inr ''??'')\<rparr>"
  let ?o3 = "\<lparr>baseUrl = ''https://x'', params = Some ?pp,
              querySerializer = (\<lambda>q. Inr ''?a=1'')\<rparr>"
  have s1: "strip_LEADING_QUESTION_RE ''??a=1?b'' = ''a=1?b''"
    by (simp add: strip_LEADING_QUESTION_RE_def)
  have s2: "strip_LEADING_QUESTION_RE ''??'' = []"
    by (simp add: strip_LEADING_QUESTION_RE_def)
  have s3: "strip_LEADING_QUESTION_RE ''?a=1'' = ''a=1''"
    by (simp add: strip_LEADING_QUESTION_RE_def)
  have u3: "defaultPathSerializer (''https://x'' @ ''/users/{id}'') (Some [(''id'', JNum 7)]) =
              Inr (JStr ''https://x/users/7'')"
    by code_simp
  have r1: "createFinalURL ''/ping'' ?o1 = Inr (JStr ''https://x/ping?a=1?b'')"
    using s1
      createFinalURL_query_separator
        [where opts = ?o1 and ps = ?ps and s = "''??a=1?b''" and pathname = "''/ping''"]
    by simp
  have r2: "createFinalURL ''/ping'' ?o2 = Inr (JStr ''https://x/ping'')"
    using s2
      createFinalURL_query_separator
        [where opts = ?o2 and ps = ?ps and s = "''??''" and pathname = "''/ping''"]
    by simp
  have r3: "createFinalURL ''/users/{id}'' ?o3 = Inr (JStr ''https://x/users/7?a=1'')"
    using s3 u3
      createFinalURL_query_separator
        [where opts = ?o3 and ps = ?pp and s = "''?a=1''" and pathname = "''/users/{id}''"
           and pathParams = "[(''id'', JNum 7)]" and u = "JStr ''https://x/users/7''"]
    by simp
  show ?thesis using r1 r2 s1 r3 by simp
qed

text \<open>
  The claim as the specification words it, that the final URL holds at most one
  question mark for every serializer output, fails where the output has a question
  mark after its first character: for the query \<^verbatim>\<open>{"a?": 1}\<close> the default serializer
  returns \<^verbatim>\<open>a?=1\<close> and the final URL holds two question marks.
\<close>

theorem createFinalURL_two_question_marks_counterexample:
  "createFinalURL ''/ping''
     \<lparr>baseUrl = ''https://x'',
      params = Some \<lparr>path = None, query = Some (JObj [(''a?'', JNum 1)]), header = ()\<rparr>,
      querySerializer = createQuerySerializer JUndefined\<rparr> =
     Inr (JStr ''https://x/ping?a?=1'') \<and>
   count_list ''https://x/ping?a?=1'' CHR ''?'' = 2"
  by code_simp

end
